theory Spec2Isabelle
  imports Complex_Main
begin

section \<open>Python values shared by the two scripts\<close>

text \<open>
  The repository holds two scripts: \<^verbatim>\<open>842_image.py\<close>, which draws synthetic samples,
  renders one boxplot image per trial and logs one CSV row per image, and
  \<^verbatim>\<open>extract_element_ids.py\<close>, which reads HTML files and collects identifiers.

  Python's \<^verbatim>\<open>int\<close> is \<^typ>\<open>int\<close>, \<^verbatim>\<open>str\<close> is \<^typ>\<open>string\<close>, and a \<^verbatim>\<open>float\<close> is the
  real number it denotes, so that comparing two floats and formatting a float are exact
  operations on reals. What numpy computes in double precision (the samples, the standard
  deviation) is not derived: these functions are parameters. The literal \<^verbatim>\<open>1.2\<close> is
  \<open>6/5\<close>, and the one sum the script itself makes on floats (the shift of the gamma
  samples) is the exact sum. An exception is a value of \<open>py_error\<close>;
  \<open>KeyboardInterrupt\<close> is the one member that is not a subclass of Python's
  \<^verbatim>\<open>Exception\<close>.
\<close>

datatype py_error =
    UnboundLocalError
  | KeyError
  | FileNotFoundError
  | IsADirectoryError
  | PermissionError
  | UnicodeDecodeError
  | JSONDecodeError
  | AttributeError
  | KeyboardInterrupt

fun is_Exception :: "py_error \<Rightarrow> bool" where
  "is_Exception KeyboardInterrupt = False"
| "is_Exception _ = True"

subsection \<open>Strings\<close>

definition digit_char :: "nat \<Rightarrow> char" where
  "digit_char d = ''0123456789'' ! (d mod 10)"

text \<open>\<^verbatim>\<open>str(n)\<close> for a Python integer: decimal digits, most significant first.\<close>

fun str_nat :: "nat \<Rightarrow> string" where
  "str_nat n = (if n < 10 then [digit_char n] else str_nat (n div 10) @ [digit_char (n mod 10)])"

declare str_nat.simps [simp del]

definition str_int :: "int \<Rightarrow> string" where
  "str_int i = (if i < 0 then CHR ''-'' # str_nat (nat (- i)) else str_nat (nat i))"

text \<open>\<^verbatim>\<open>s.replace(old, new)\<close> where \<^verbatim>\<open>old\<close> is a single character, as in both calls of the script.\<close>

definition str_replace :: "string \<Rightarrow> char \<Rightarrow> string \<Rightarrow> string" where
  "str_replace s old new = concat (map (\<lambda>c. if c = old then new else [c]) s)"

text \<open>\<^verbatim>\<open>os.path.join(a, b)\<close> of \<^verbatim>\<open>posixpath\<close> for two components.\<close>

definition path_join :: "string \<Rightarrow> string \<Rightarrow> string" where
  "path_join a b =
     (if b \<noteq> [] \<and> hd b = CHR ''/'' then b
      else if a = [] \<or> last a = CHR ''/'' then a @ b
      else a @ ''/'' @ b)"

subsection \<open>Formatting a float with \<^verbatim>\<open>:.3f\<close>\<close>

text \<open>
  Python rounds the exact value of the float to three decimals, ties to even, and prints
  the sign, the integer part, a point and exactly three digits.
\<close>

definition round_half_even :: "real \<Rightarrow> int" where
  "round_half_even y =
     (let f = \<lfloor>y\<rfloor>; d = y - of_int f
      in if d < 1 / 2 then f
         else if d > 1 / 2 then f + 1
         else if even f then f else f + 1)"

definition fmt_3f :: "real \<Rightarrow> string" where
  "fmt_3f x =
     (let m = nat (round_half_even (\<bar>x\<bar> * 1000))
      in (if x < 0 then ''-'' else '''')
         @ str_nat (m div 1000) @ ''.''
         @ [digit_char (m div 100 mod 10), digit_char (m div 10 mod 10), digit_char (m mod 10)])"

section \<open>The stimulus generator \<^verbatim>\<open>842_image.py\<close>\<close>

subsection \<open>The numpy calls\<close>

text \<open>
  numpy's global generator is a state of type \<open>'g\<close>, threaded through every call.
  The library's samplers are parameters: each draws one value and returns the next state.
  \<open>np_seed\<close> is \<^verbatim>\<open>np.random.seed\<close>. \<open>np_std a d\<close> is \<^verbatim>\<open>np.std(a, ddof=d)\<close>, a
  parameter as well: the float it returns, computed by numpy in double precision, is not
  derived here. On the script's sequences (20 to 80 finite values) that float is finite.
\<close>

record 'g numpy =
  np_seed :: "nat \<Rightarrow> 'g"
  np_normal1 :: "real \<Rightarrow> real \<Rightarrow> 'g \<Rightarrow> real \<times> 'g"
  np_gamma1 :: "real \<Rightarrow> real \<Rightarrow> 'g \<Rightarrow> real \<times> 'g"
  np_rand1 :: "'g \<Rightarrow> real \<times> 'g"
  np_std :: "real list \<Rightarrow> nat \<Rightarrow> real"

text \<open>A call with \<^verbatim>\<open>size=n\<close> fills an array with \<open>n\<close> successive draws.\<close>

fun draws :: "nat \<Rightarrow> ('g \<Rightarrow> real \<times> 'g) \<Rightarrow> 'g \<Rightarrow> real list \<times> 'g" where
  "draws 0 f g = ([], g)"
| "draws (Suc n) f g =
     (let (x, g1) = f g; (xs, g2) = draws n f g1 in (x # xs, g2))"

definition random_normal :: "'g numpy \<Rightarrow> real \<Rightarrow> real \<Rightarrow> nat \<Rightarrow> 'g \<Rightarrow> real list \<times> 'g" where
  "random_normal np loc scale n g = draws n (np_normal1 np loc scale) g"

definition random_gamma :: "'g numpy \<Rightarrow> real \<Rightarrow> real \<Rightarrow> nat \<Rightarrow> 'g \<Rightarrow> real list \<times> 'g" where
  "random_gamma np shape scale n g = draws n (np_gamma1 np shape scale) g"

text \<open>\<^verbatim>\<open>range(n)\<close>.\<close>

definition py_range :: "int \<Rightarrow> int list" where
  "py_range n = map int [0..<nat n]"

subsection \<open>Configuration\<close>

definition conditions :: "(string \<times> string \<times> string) list" where
  "conditions =
     [(''Jitter On'', ''Tukey'', ''Points On''),
      (''Jitter On'', ''Tukey'', ''Points Off''),
      (''Jitter On'', ''MinMax'', ''Points On''),
      (''Jitter On'', ''MinMax'', ''Points Off''),
      (''Jitter Off'', ''Tukey'', ''Points On''),
      (''Jitter Off'', ''Tukey'', ''Points Off''),
      (''Jitter Off'', ''MinMax'', ''Points On''),
      (''Jitter Off'', ''MinMax'', ''Points Off'')]"

definition trial_types :: "string list" where
  "trial_types =
     [''Different SDs'', ''Outlier vs No-Outlier'', ''Skew vs Symmetric'', ''Unequal Sample Size'']"

definition num_instances_per_trial_type :: int where
  "num_instances_per_trial_type = 4"

subsection \<open>\<^verbatim>\<open>generate_trial_data\<close>\<close>

text \<open>
  A label that matches no branch leaves \<^verbatim>\<open>left\<close> unbound, and the \<^verbatim>\<open>return\<close> raises
  \<^verbatim>\<open>UnboundLocalError\<close>.
\<close>

definition generate_trial_data ::
  "'g numpy \<Rightarrow> string \<Rightarrow> 'g \<Rightarrow> py_error + ((real list \<times> real list) \<times> 'g)" where
  "generate_trial_data np trial_type g =
     (let mu = 5 in
      if trial_type = ''Different SDs'' then
        (let (left, g1) = random_normal np mu 1.0 50 g;
             (right, g2) = random_normal np mu 2.0 50 g1
         in Inr ((left, right), g2))
      else if trial_type = ''Outlier vs No-Outlier'' then
        (let (left, g1) = random_normal np mu 1.0 50 g;
             left = left @ [mu + 8, mu + 10, mu - 8, mu - 10, mu + 12];
             (right, g2) = random_normal np mu 1.2 50 g1
         in Inr ((left, right), g2))
      else if trial_type = ''Skew vs Symmetric'' then
        (let (raw, g1) = random_gamma np 2.0 1.0 50 g;
             left = map (\<lambda>v. v + mu - 2) raw;
             (right, g2) = random_normal np mu 1.0 50 g1
         in Inr ((left, right), g2))
      else if trial_type = ''Unequal Sample Size'' then
        (let (left, g1) = random_normal np mu 1.0 80 g;
             (right, g2) = random_normal np mu 1.2 20 g1
         in Inr ((left, right), g2))
      else Inl UnboundLocalError)"

subsection \<open>The state of a run\<close>

text \<open>
  A figure is what \<^verbatim>\<open>plot_trial\<close> asks matplotlib to draw. The state of a run is the
  generator, the dictionary \<^verbatim>\<open>data_sets\<close>, the rows written to the CSV file so far and
  the images saved so far, each with its path.
\<close>

datatype whis = WhisIQR real | WhisPercentiles real real

record figure =
  fig_box_data :: "real list list"
  fig_positions :: "real list"
  fig_whis :: whis
  fig_scatter :: "(real list \<times> real list) list"
  fig_ylabel :: string
  fig_xticks :: "string list"
  fig_title :: string

record 'g world =
  rng :: 'g
  data_sets :: "(string \<times> int) \<rightharpoonup> (real list \<times> real list)"
  csv_log :: "string list list"
  saved :: "(string \<times> figure) list"

subsection \<open>\<^verbatim>\<open>plot_trial\<close>\<close>

definition trial_filename :: "int \<Rightarrow> string \<Rightarrow> string \<Rightarrow> string \<Rightarrow> string \<Rightarrow> string" where
  "trial_filename trial_idx trial_type jitter whisker points =
     str_int trial_idx @ ''_'' @ str_replace trial_type CHR '' '' ''_'' @ ''_''
       @ str_replace jitter CHR '' '' '''' @ ''_'' @ whisker @ ''_''
       @ str_replace points CHR '' '' '''' @ ''.png''"

fun scatter_loop ::
  "'g numpy \<Rightarrow> string \<Rightarrow> real list \<Rightarrow> (nat \<times> real list) list \<Rightarrow> 'g
     \<Rightarrow> (real list \<times> real list) list \<times> 'g" where
  "scatter_loop np jitter positions [] g = ([], g)"
| "scatter_loop np jitter positions ((i, data) # rest) g =
     (let (x, g1) =
            (if jitter = ''Jitter On''
             then random_normal np (positions ! i) 0.05 (length data) g
             else (replicate (length data) (positions ! i), g));
          (more, g2) = scatter_loop np jitter positions rest g1
      in ((x, data) # more, g2))"

definition plot_trial ::
  "'g numpy \<Rightarrow> string \<Rightarrow> real list \<Rightarrow> real list \<Rightarrow> string \<times> string \<times> string \<Rightarrow> string \<Rightarrow> int
     \<Rightarrow> 'g world \<Rightarrow> 'g world" where
  "plot_trial np output_dir left right condition trial_type trial_idx w =
     (let (jitter, whisker, points) = condition;
          positions = [1, 2];
          whis_value = (if whisker = ''Tukey'' then WhisIQR 1.5 else WhisPercentiles 0 100);
          (scatter, g1) =
            (if points = ''Points On''
             then scatter_loop np jitter positions [(0, left), (1, right)] (rng w)
             else ([], rng w));
          fig = \<lparr> fig_box_data = [left, right], fig_positions = positions,
                  fig_whis = whis_value, fig_scatter = scatter,
                  fig_ylabel = ''Value'', fig_xticks = [''Left'', ''Right''],
                  fig_title = ''Trial '' @ str_int trial_idx @ '' | '' @ jitter @ '' x ''
                                @ whisker @ '' x '' @ points \<rparr>;
          filename = trial_filename trial_idx trial_type jitter whisker points
      in w\<lparr> rng := g1, saved := saved w @ [(path_join output_dir filename, fig)] \<rparr>)"

subsection \<open>Generating the data sets\<close>

fun generate_instances :: "'g numpy \<Rightarrow> string \<Rightarrow> int list \<Rightarrow> 'g world \<Rightarrow> py_error + 'g world" where
  "generate_instances np trial_type [] w = Inr w"
| "generate_instances np trial_type (instance # rest) w =
     (case generate_trial_data np trial_type (rng w) of
        Inl e \<Rightarrow> Inl e
      | Inr ((left, right), g1) \<Rightarrow>
          (let (u, g2) = np_rand1 np g1;
               (left, right) = (if u > 0.5 then (right, left) else (left, right))
           in generate_instances np trial_type rest
                (w\<lparr> rng := g2,
                    data_sets := (data_sets w)((trial_type, instance) \<mapsto> (left, right)) \<rparr>)))"

fun generate_data_sets :: "'g numpy \<Rightarrow> string list \<Rightarrow> 'g world \<Rightarrow> py_error + 'g world" where
  "generate_data_sets np [] w = Inr w"
| "generate_data_sets np (trial_type # rest) w =
     (case generate_instances np trial_type (py_range num_instances_per_trial_type) w of
        Inl e \<Rightarrow> Inl e
      | Inr w1 \<Rightarrow> generate_data_sets np rest w1)"

subsection \<open>Writing the CSV log and the images\<close>

definition csv_header :: "string list" where
  "csv_header =
     [''TrialIdx'', ''TrialType'', ''Instance'', ''Jitter'', ''Whisker'', ''Points'',
      ''Left_SD'', ''Right_SD'', ''More_Variable'']"

fun condition_loop ::
  "'g numpy \<Rightarrow> string \<Rightarrow> string \<Rightarrow> int \<Rightarrow> real list \<Rightarrow> real list \<Rightarrow> real \<Rightarrow> real \<Rightarrow> string
     \<Rightarrow> (string \<times> string \<times> string) list \<Rightarrow> int \<times> 'g world \<Rightarrow> int \<times> 'g world" where
  "condition_loop np output_dir trial_type instance left right left_sd right_sd more_var []
     (trial_idx, w) = (trial_idx, w)"
| "condition_loop np output_dir trial_type instance left right left_sd right_sd more_var
     (condition # rest) (trial_idx, w) =
     (let w1 = w\<lparr> csv_log := csv_log w @
                   [[str_int trial_idx, trial_type, str_int instance,
                     fst condition, fst (snd condition), snd (snd condition),
                     fmt_3f left_sd, fmt_3f right_sd, more_var]] \<rparr>;
          w2 = plot_trial np output_dir left right condition trial_type trial_idx w1
      in condition_loop np output_dir trial_type instance left right left_sd right_sd more_var
           rest (trial_idx + 1, w2))"

fun log_instances ::
  "'g numpy \<Rightarrow> string \<Rightarrow> string \<Rightarrow> int list \<Rightarrow> int \<times> 'g world \<Rightarrow> py_error + (int \<times> 'g world)" where
  "log_instances np output_dir trial_type [] s = Inr s"
| "log_instances np output_dir trial_type (instance # rest) (trial_idx, w) =
     (case data_sets w (trial_type, instance) of
        None \<Rightarrow> Inl KeyError
      | Some (left, right) \<Rightarrow>
          (let left_sd = np_std np left 1;
               right_sd = np_std np right 1;
               more_var = (if left_sd > right_sd then ''Left''
                           else if right_sd > left_sd then ''Right''
                           else ''Equal'')
           in log_instances np output_dir trial_type rest
                (condition_loop np output_dir trial_type instance left right
                   left_sd right_sd more_var conditions (trial_idx, w))))"

fun log_trial_types ::
  "'g numpy \<Rightarrow> string \<Rightarrow> string list \<Rightarrow> int \<times> 'g world \<Rightarrow> py_error + (int \<times> 'g world)" where
  "log_trial_types np output_dir [] s = Inr s"
| "log_trial_types np output_dir (trial_type # rest) s =
     (case log_instances np output_dir trial_type (py_range num_instances_per_trial_type) s of
        Inl e \<Rightarrow> Inl e
      | Inr s1 \<Rightarrow> log_trial_types np output_dir rest s1)"

subsection \<open>The script\<close>

text \<open>
  \<open>run\<close> is the module body for a seed and the directory of the script file;
  \<open>main\<close> is the script as written, with the seed 2025. Opening the CSV file with
  mode \<^verbatim>\<open>"w"\<close> starts it empty.
\<close>

definition run :: "'g numpy \<Rightarrow> nat \<Rightarrow> string \<Rightarrow> py_error + 'g world" where
  "run np seed script_dir =
     (let output_dir = path_join script_dir ''boxplot_stimuli'';
          w0 = \<lparr> rng = np_seed np seed, data_sets = Map.empty, csv_log = [], saved = [] \<rparr>
      in case generate_data_sets np trial_types w0 of
           Inl e \<Rightarrow> Inl e
         | Inr w1 \<Rightarrow>
             (case log_trial_types np output_dir trial_types
                     (1, w1\<lparr> csv_log := [csv_header] \<rparr>) of
                Inl e \<Rightarrow> Inl e
              | Inr (trial_idx, w2) \<Rightarrow> Inr w2))"

definition main :: "'g numpy \<Rightarrow> string \<Rightarrow> py_error + 'g world" where
  "main np script_dir = run np 2025 script_dir"

text \<open>
  The bytes of the CSV file: \<^verbatim>\<open>csv.writer\<close> in its default dialect joins the fields with
  commas, quotes a field that holds a comma, a quote or a line break, writes a row of one
  empty field as two quotes, and ends each row with CR LF.
\<close>

definition csv_field :: "string \<Rightarrow> string" where
  "csv_field s =
     (if \<exists>c \<in> set s. c \<in> {CHR '','', CHR 0x22, CHR 0x0D, CHR 0x0A}
      then [CHR 0x22] @ str_replace s (CHR 0x22) [CHR 0x22, CHR 0x22] @ [CHR 0x22]
      else s)"

fun join_commas :: "string list \<Rightarrow> string" where
  "join_commas [] = []"
| "join_commas [s] = s"
| "join_commas (s # rest) = s @ '','' @ join_commas rest"

definition csv_line :: "string list \<Rightarrow> string" where
  "csv_line row =
     (if row = [[]] then [CHR 0x22, CHR 0x22] else join_commas (map csv_field row))
       @ [CHR 0x0D, CHR 0x0A]"

definition csv_text :: "string list list \<Rightarrow> string" where
  "csv_text rows = concat (map csv_line rows)"

section \<open>The extractor \<^verbatim>\<open>extract_element_ids.py\<close>\<close>

subsection \<open>The library calls\<close>

text \<open>
  \<open>json_loads\<close> is \<^verbatim>\<open>json.loads\<close>: it returns the decoded value or raises.
  \<open>start_tags\<close> is what \<^verbatim>\<open>HTMLParser.feed\<close> finds in a document: its start tags in
  order, each with its attributes, where an attribute written without a value has the
  value \<^verbatim>\<open>None\<close>. A JSON object is the list of its keys and values, each key once, as
  in the \<^verbatim>\<open>dict\<close> that \<^verbatim>\<open>json.loads\<close> builds.
\<close>

datatype json =
    JNull
  | JBool bool
  | JNumber real
  | JString string
  | JArray "json list"
  | JObject "(string \<times> json) list"

record html_lib =
  json_loads :: "string \<Rightarrow> py_error + json"
  start_tags :: "string \<Rightarrow> py_error + (string \<times> (string \<times> string option) list) list"

text \<open>
  \<^verbatim>\<open>s.strip()\<close>, for the ASCII white space characters. Python also strips the white
  space beyond ASCII (such as U+0085 and U+00A0), which strings of bytes do not show.
\<close>

definition is_space :: "char \<Rightarrow> bool" where
  "is_space c \<longleftrightarrow> (of_char c :: nat) \<in> {9, 10, 11, 12, 13, 28, 29, 30, 31, 32}"

definition py_strip :: "string \<Rightarrow> string" where
  "py_strip s = rev (dropWhile is_space (rev (dropWhile is_space s)))"

text \<open>The truth value of a decoded JSON value in a condition.\<close>

fun truthy :: "json \<Rightarrow> bool" where
  "truthy JNull = False"
| "truthy (JBool b) = b"
| "truthy (JNumber x) = (x \<noteq> 0)"
| "truthy (JString s) = (s \<noteq> [])"
| "truthy (JArray xs) = (xs \<noteq> [])"
| "truthy (JObject kvs) = (kvs \<noteq> [])"

text \<open>
  \<^verbatim>\<open>data.get(key, default)\<close> and \<^verbatim>\<open>element_id.strip()\<close>: a value that is not a
  \<^verbatim>\<open>dict\<close>, respectively not a \<^verbatim>\<open>str\<close>, has no such method, and the call raises
  \<^verbatim>\<open>AttributeError\<close>.
\<close>

definition json_get :: "json \<Rightarrow> string \<Rightarrow> json \<Rightarrow> py_error + json" where
  "json_get data key dflt =
     (case data of
        JObject kvs \<Rightarrow> (case map_of kvs key of Some v \<Rightarrow> Inr v | None \<Rightarrow> Inr dflt)
      | _ \<Rightarrow> Inl AttributeError)"

definition json_strip :: "json \<Rightarrow> py_error + string" where
  "json_strip v = (case v of JString s \<Rightarrow> Inr (py_strip s) | _ \<Rightarrow> Inl AttributeError)"

subsection \<open>\<^verbatim>\<open>ElementIDExtractor.handle_starttag\<close>\<close>

text \<open>The body of the \<^verbatim>\<open>try\<close> block, on the list \<^verbatim>\<open>self.element_ids\<close>.\<close>

definition parse_element_id :: "html_lib \<Rightarrow> string \<Rightarrow> string list \<Rightarrow> py_error + string list" where
  "parse_element_id lib attr_value element_ids =
     (case json_loads lib attr_value of
        Inl e \<Rightarrow> Inl e
      | Inr data \<Rightarrow>
          (case json_get data ''elementID'' (JString '''') of
             Inl e \<Rightarrow> Inl e
           | Inr element_id \<Rightarrow>
               if truthy element_id then
                 (case json_strip element_id of
                    Inl e \<Rightarrow> Inl e
                  | Inr stripped \<Rightarrow>
                      if stripped \<noteq> [] then Inr (element_ids @ [stripped]) else Inr element_ids)
               else Inr element_ids))"

fun handle_starttag ::
  "html_lib \<Rightarrow> string \<Rightarrow> (string \<times> string option) list \<Rightarrow> string list \<Rightarrow> py_error + string list" where
  "handle_starttag lib tag [] element_ids = Inr element_ids"
| "handle_starttag lib tag ((attr_name, attr_value) # rest) element_ids =
     (case attr_value of
        Some v \<Rightarrow>
          if attr_name = ''data-rbd-draggable-id'' \<and> v \<noteq> [] \<and> py_strip v \<noteq> [] then
            (case parse_element_id lib v element_ids of
               Inl e \<Rightarrow>
                 if e = JSONDecodeError \<or> e = AttributeError
                 then handle_starttag lib tag rest element_ids
                 else Inl e
             | Inr ids \<Rightarrow> handle_starttag lib tag rest ids)
          else handle_starttag lib tag rest element_ids
      | None \<Rightarrow> handle_starttag lib tag rest element_ids)"

text \<open>\<^verbatim>\<open>parser.feed(content)\<close> calls the handler on each start tag in turn.\<close>

fun feed_tags ::
  "html_lib \<Rightarrow> (string \<times> (string \<times> string option) list) list \<Rightarrow> string list
     \<Rightarrow> py_error + string list" where
  "feed_tags lib [] element_ids = Inr element_ids"
| "feed_tags lib ((tag, attrs) # rest) element_ids =
     (case handle_starttag lib tag attrs element_ids of
        Inl e \<Rightarrow> Inl e
      | Inr ids \<Rightarrow> feed_tags lib rest ids)"

definition feed :: "html_lib \<Rightarrow> string \<Rightarrow> string list \<Rightarrow> py_error + string list" where
  "feed lib content element_ids =
     (case start_tags lib content of
        Inl e \<Rightarrow> Inl e
      | Inr tags \<Rightarrow> feed_tags lib tags element_ids)"

subsection \<open>Files\<close>

text \<open>
  A path names nothing, a directory, a file that may not be read, a file whose bytes are
  not UTF-8, or a file with a text. \<open>read_text\<close> is
  \<^verbatim>\<open>open(html_file, 'r', encoding='utf-8')\<close> followed by \<^verbatim>\<open>f.read()\<close>.
\<close>

datatype file_node = Directory | Unreadable | NotUtf8 | Text string

definition read_text :: "(string \<rightharpoonup> file_node) \<Rightarrow> string \<Rightarrow> py_error + string" where
  "read_text fs path =
     (case fs path of
        None \<Rightarrow> Inl FileNotFoundError
      | Some Directory \<Rightarrow> Inl IsADirectoryError
      | Some Unreadable \<Rightarrow> Inl PermissionError
      | Some NotUtf8 \<Rightarrow> Inl UnicodeDecodeError
      | Some (Text content) \<Rightarrow> Inr content)"

subsection \<open>\<^verbatim>\<open>extract_element_ids\<close>\<close>

text \<open>
  The \<^verbatim>\<open>try\<close> block opens and reads the file and feeds the parser;
  \<^verbatim>\<open>except Exception\<close> catches every error that is an \<^verbatim>\<open>Exception\<close> and returns
  the empty list. The message printed on that path is not modelled.
\<close>

definition extract_element_ids ::
  "html_lib \<Rightarrow> (string \<rightharpoonup> file_node) \<Rightarrow> string \<Rightarrow> py_error + string list" where
  "extract_element_ids lib fs html_file =
     (case (case read_text fs html_file of
              Inl e \<Rightarrow> Inl e
            | Inr content \<Rightarrow> feed lib content []) of
        Inl e \<Rightarrow> if is_Exception e then Inr [] else Inl e
      | Inr element_ids \<Rightarrow> Inr element_ids)"

section \<open>Notions used to state the properties\<close>

text \<open>
  Nothing in this section is in the scripts. It names what a run leaves behind, gives the
  loops of \<^verbatim>\<open>842_image.py\<close> a closed form, words the specification's notions, and
  fixes small concrete libraries on which the properties are instantiated.
\<close>

subsection \<open>What a run leaves\<close>

text \<open>The rows of the CSV file a run leaves; none when the run raised.\<close>

definition csv_rows_of :: "py_error + 'g world \<Rightarrow> string list list" where
  "csv_rows_of res = (case res of Inl e \<Rightarrow> [] | Inr w \<Rightarrow> csv_log w)"

text \<open>The dictionary of data sets a run leaves; empty when the run raised.\<close>

definition data_sets_of :: "py_error + 'g world \<Rightarrow> (string \<times> int) \<rightharpoonup> (real list \<times> real list)" where
  "data_sets_of res = (case res of Inl e \<Rightarrow> Map.empty | Inr w \<Rightarrow> data_sets w)"

text \<open>A column of a row, by the name the header gives it.\<close>

definition field :: "string \<Rightarrow> string list \<Rightarrow> string" where
  "field name row = the (map_of (zip csv_header row) name)"

subsection \<open>Closed forms of the loops\<close>

text \<open>
  \<open>number_from\<close> numbers the elements of a list as the counter \<^verbatim>\<open>trial_idx\<close> does.
  \<open>csv_row\<close> and \<open>image_path\<close> are the row logged and the path saved for one trial,
  \<open>more_variable\<close> is the label computed for a data set, \<open>data_set_rows\<close> and
  \<open>data_set_paths\<close> are the eight rows and paths of one data set, and \<open>per_instance\<close>
  and \<open>per_trial_type\<close> lay them out as the two outer loops do. \<open>from_recipe\<close> says
  that a stored pair came out of \<open>generate_trial_data\<close>, swapped or not.
\<close>

fun number_from :: "int \<Rightarrow> (int \<Rightarrow> 'a \<Rightarrow> 'b) \<Rightarrow> 'a list \<Rightarrow> 'b list" where
  "number_from i f [] = []"
| "number_from i f (x # xs) = f i x # number_from (i + 1) f xs"

definition csv_row ::
  "string \<Rightarrow> int \<Rightarrow> real \<Rightarrow> real \<Rightarrow> string \<Rightarrow> int \<Rightarrow> (string \<times> string \<times> string) \<Rightarrow> string list" where
  "csv_row trial_type inst left_sd right_sd more_var trial_idx condition =
     [str_int trial_idx, trial_type, str_int inst,
      fst condition, fst (snd condition), snd (snd condition),
      fmt_3f left_sd, fmt_3f right_sd, more_var]"

definition image_path :: "string \<Rightarrow> string \<Rightarrow> int \<Rightarrow> (string \<times> string \<times> string) \<Rightarrow> string" where
  "image_path output_dir trial_type trial_idx condition =
     path_join output_dir
       (trial_filename trial_idx trial_type (fst condition) (fst (snd condition))
          (snd (snd condition)))"

definition more_variable :: "'g numpy \<Rightarrow> real list \<times> real list \<Rightarrow> string" where
  "more_variable np p =
     (if np_std np (fst p) 1 > np_std np (snd p) 1 then ''Left''
      else if np_std np (snd p) 1 > np_std np (fst p) 1 then ''Right''
      else ''Equal'')"

definition data_set_rows ::
  "'g numpy \<Rightarrow> int \<Rightarrow> string \<Rightarrow> int \<Rightarrow> real list \<times> real list \<Rightarrow> string list list" where
  "data_set_rows np i trial_type inst p =
     number_from i
       (csv_row trial_type inst (np_std np (fst p) 1) (np_std np (snd p) 1) (more_variable np p))
       conditions"

definition data_set_paths ::
  "string \<Rightarrow> int \<Rightarrow> string \<Rightarrow> int \<Rightarrow> real list \<times> real list \<Rightarrow> string list" where
  "data_set_paths output_dir i trial_type inst p =
     number_from i (image_path output_dir trial_type) conditions"

fun per_instance ::
  "(int \<Rightarrow> string \<Rightarrow> int \<Rightarrow> real list \<times> real list \<Rightarrow> 'a list) \<Rightarrow> int \<Rightarrow> string \<Rightarrow> int list
     \<Rightarrow> ((string \<times> int) \<rightharpoonup> (real list \<times> real list)) \<Rightarrow> 'a list" where
  "per_instance f i trial_type [] ds = []"
| "per_instance f i trial_type (inst # rest) ds =
     f i trial_type inst (the (ds (trial_type, inst)))
       @ per_instance f (i + int (length conditions)) trial_type rest ds"

fun per_trial_type ::
  "(int \<Rightarrow> string \<Rightarrow> int \<Rightarrow> real list \<times> real list \<Rightarrow> 'a list) \<Rightarrow> int \<Rightarrow> string list
     \<Rightarrow> ((string \<times> int) \<rightharpoonup> (real list \<times> real list)) \<Rightarrow> 'a list" where
  "per_trial_type f i [] ds = []"
| "per_trial_type f i (trial_type # rest) ds =
     per_instance f i trial_type (py_range num_instances_per_trial_type) ds
       @ per_trial_type f (i + int (length conditions) * num_instances_per_trial_type) rest ds"

definition from_recipe :: "'g numpy \<Rightarrow> string \<Rightarrow> real list \<times> real list \<Rightarrow> bool" where
  "from_recipe np trial_type p \<longleftrightarrow>
     (\<exists>g left right g'. generate_trial_data np trial_type g = Inr ((left, right), g')
        \<and> (p = (left, right) \<or> p = (right, left)))"

subsection \<open>The specification's words\<close>


text \<open>
  The file name as the specification's grammar words it: the index, the trial type with
  every space turned into an underscore, the jitter value without its spaces, the whisker
  value, the points value without its spaces, joined by underscores and ended by
  \<^verbatim>\<open>.png\<close>.
\<close>

definition grammar_filename :: "int \<Rightarrow> string \<Rightarrow> string \<Rightarrow> string \<Rightarrow> string \<Rightarrow> string" where
  "grammar_filename index trial_type jitter whisker points =
     str_int index @ ''_''
       @ map (\<lambda>c. if c = CHR '' '' then CHR ''_'' else c) trial_type @ ''_''
       @ filter (\<lambda>c. c \<noteq> CHR '' '') jitter @ ''_''
       @ whisker @ ''_''
       @ filter (\<lambda>c. c \<noteq> CHR '' '') points @ ''.png''"

text \<open>
  An "Unequal Sample Size" trial as the specification words it: both sequences normal
  with the same spread parameter \<open>sigma\<close>, 80 and 20 values.
\<close>

definition equal_spread_unequal_size ::
  "'g numpy \<Rightarrow> real \<Rightarrow> 'g \<Rightarrow> py_error + ((real list \<times> real list) \<times> 'g)" where
  "equal_spread_unequal_size np sigma g =
     (let (left, g1) = random_normal np 5 sigma 80 g;
          (right, g2) = random_normal np 5 sigma 20 g1
      in Inr ((left, right), g2))"

subsection \<open>Reading decimal strings and paths back\<close>

text \<open>
  \<open>nat_of_digits\<close> reads a decimal string back; \<open>dir_prefix\<close> is what \<open>path_join\<close>
  puts in front of a relative file name.
\<close>

definition digit_val :: "char \<Rightarrow> nat" where
  "digit_val c = of_char c - 48"

definition nat_of_digits :: "string \<Rightarrow> nat" where
  "nat_of_digits s = foldl (\<lambda>a c. 10 * a + digit_val c) 0 s"

definition dir_prefix :: "string \<Rightarrow> string" where
  "dir_prefix d = (if d = [] \<or> last d = CHR ''/'' then d else d @ ''/'')"





subsection \<open>Concrete libraries\<close>

text \<open>
  \<open>exact_std a d\<close> is the standard deviation with divisor \<open>n - d\<close> in exact arithmetic:
  the mean, the squared deviations, their sum divided by \<open>max (n - d) 0\<close>, and the square
  root. The stand-ins below use it for \<^verbatim>\<open>np.std\<close>.
\<close>

definition exact_std :: "real list \<Rightarrow> nat \<Rightarrow> real" where
  "exact_std a ddof =
     (let n = length a;
          arrmean = sum_list a / real n;
          x = map (\<lambda>v. v - arrmean) a;
          ret = sum_list (map (\<lambda>v. v * v) x);
          rcount = max (int n - int ddof) 0
      in sqrt (ret / real_of_int rcount))"

text \<open>
  \<open>demo_numpy\<close> is a stand-in for numpy whose generator state counts the draws made so
  far. Its normal sampler returns \<open>loc + scale * z\<close> for the \<open>z\<close> that \<open>demo_stream\<close>
  gives at this count, its gamma sampler returns \<open>shape * scale\<close>, and its \<^verbatim>\<open>rand\<close>
  returns 0, so that no pair is swapped.
\<close>

definition demo_stream :: "nat \<Rightarrow> real" where
  "demo_stream k = (if k = 50 then 1 / 10000 else if k = 51 then - (1 / 10000) else 0)"

definition demo_numpy :: "nat numpy" where
  "demo_numpy =
     \<lparr> np_seed = (\<lambda>s. 0),
       np_normal1 = (\<lambda>loc scale g. (loc + scale * demo_stream g, Suc g)),
       np_gamma1 = (\<lambda>shape scale g. (shape * scale, Suc g)),
       np_rand1 = (\<lambda>g. (0, Suc g)),
       np_std = exact_std \<rparr>"

text \<open>
  \<open>unit_numpy\<close> is a second stand-in: every normal draw is \<open>loc + scale\<close> (one spread
  above the centre), and \<^verbatim>\<open>rand\<close> returns 1, so that every pair is swapped.
\<close>

definition unit_numpy :: "nat numpy" where
  "unit_numpy =
     \<lparr> np_seed = (\<lambda>s. 0),
       np_normal1 = (\<lambda>loc scale g. (loc + scale, Suc g)),
       np_gamma1 = (\<lambda>shape scale g. (shape * scale, Suc g)),
       np_rand1 = (\<lambda>g. (1, Suc g)),
       np_std = exact_std \<rparr>"

text \<open>\<open>null_html_lib\<close> finds no start tag and decodes no JSON text.\<close>

definition null_html_lib :: html_lib where
  "null_html_lib = \<lparr> json_loads = (\<lambda>s. Inl JSONDecodeError), start_tags = (\<lambda>s. Inr []) \<rparr>"

section \<open>Properties of the model\<close>

subsection \<open>Draws and recipes\<close>

lemma draws_length: "length (fst (draws n f g)) = n"
proof (induction n arbitrary: g)
  case 0
  show ?case by simp
next
  case (Suc n)
  obtain x g1 where a: "f g = (x, g1)" by (cases "f g")
  obtain xs g2 where b: "draws n f g1 = (xs, g2)" by (cases "draws n f g1")
  from Suc [of g1] b have "length xs = n" by simp
  with a b show ?case by simp
qed

lemma random_normal_length: "random_normal np loc scale n g = (xs, g') \<Longrightarrow> length xs = n"
  using draws_length [of n "np_normal1 np loc scale" g] by (simp add: random_normal_def)


lemma generate_trial_data_known:
  "trial_type \<in> set trial_types \<Longrightarrow> \<exists>left right g'. generate_trial_data np trial_type g = Inr ((left, right), g')"
  by (auto simp: trial_types_def generate_trial_data_def Let_def split: prod.splits)



lemma generate_outlier:
  assumes "generate_trial_data np ''Outlier vs No-Outlier'' g = Inr ((l, r), g')"
  shows "\<exists>base g1. random_normal np 5 1 50 g = (base, g1) \<and> length base = 50
           \<and> l = base @ [13, 15, - 3, - 5, 17] \<and> length r = 50"
proof -
  obtain a g1 where a: "random_normal np 5 1 50 g = (a, g1)" by (cases "random_normal np 5 1 50 g")
  obtain b g2 where b: "random_normal np 5 (6 / 5) 50 g1 = (b, g2)"
    by (cases "random_normal np 5 (6 / 5) 50 g1")
  from assms a b have "l = a @ [13, 15, - 3, - 5, 17]" "r = b" by (simp_all add: generate_trial_data_def)
  with a random_normal_length [OF a] random_normal_length [OF b] show ?thesis by simp
qed


lemma generate_unequal:
  assumes "generate_trial_data np ''Unequal Sample Size'' g = Inr ((l, r), g')"
  shows "length l = 80 \<and> length r = 20"
proof -
  obtain a g1 where a: "random_normal np 5 1 80 g = (a, g1)" by (cases "random_normal np 5 1 80 g")
  obtain b g2 where b: "random_normal np 5 (6 / 5) 20 g1 = (b, g2)"
    by (cases "random_normal np 5 (6 / 5) 20 g1")
  from assms a b have "l = a" "r = b" by (simp_all add: generate_trial_data_def)
  with random_normal_length [OF a] random_normal_length [OF b] show ?thesis by simp
qed


lemma from_recipe_unequal:
  assumes "from_recipe np ''Unequal Sample Size'' (l, r)"
  shows "(length l = 80 \<and> length r = 20) \<or> (length l = 20 \<and> length r = 80)"
proof -
  from assms obtain g a b g' where
    gen: "generate_trial_data np ''Unequal Sample Size'' g = Inr ((a, b), g')"
    and sw: "(l, r) = (a, b) \<or> (l, r) = (b, a)"
    unfolding from_recipe_def by blast
  from generate_unequal [OF gen] sw show ?thesis by auto
qed

lemma from_recipe_outlier:
  assumes "from_recipe np ''Outlier vs No-Outlier'' (l, r)"
  shows "\<exists>g base g1. random_normal np 5 1 50 g = (base, g1) \<and> length base = 50 \<and>
       ((l = base @ [13, 15, - 3, - 5, 17] \<and> length r = 50)
        \<or> (r = base @ [13, 15, - 3, - 5, 17] \<and> length l = 50))"
proof -
  from assms obtain g a b g' where
    gen: "generate_trial_data np ''Outlier vs No-Outlier'' g = Inr ((a, b), g')"
    and sw: "(l, r) = (a, b) \<or> (l, r) = (b, a)"
    unfolding from_recipe_def by blast
  from generate_outlier [OF gen] obtain base g1 where
    "random_normal np 5 1 50 g = (base, g1)"
    "length base = 50" "a = base @ [13, 15, - 3, - 5, 17]" "length b = 50" by blast
  with sw show ?thesis by auto
qed


subsection \<open>The generation loops\<close>

lemma py_range_4: "py_range num_instances_per_trial_type = [0, 1, 2, 3]"
  by (simp add: py_range_def num_instances_per_trial_type_def upt_conv_Cons)

lemma py_range_4n: "py_range 4 = [0, 1, 2, 3]"
  by (simp add: py_range_def upt_conv_Cons)

lemma generate_instances_spec:
  assumes tt: "trial_type \<in> set trial_types"
  shows "\<exists>w'. generate_instances np trial_type insts w = Inr w'
      \<and> csv_log w' = csv_log w \<and> saved w' = saved w
      \<and> (\<forall>k. k \<notin> Pair trial_type ` set insts \<longrightarrow> data_sets w' k = data_sets w k)
      \<and> (\<forall>i \<in> set insts. \<exists>p. data_sets w' (trial_type, i) = Some p \<and> from_recipe np trial_type p)"
proof (induction insts arbitrary: w)
  case Nil
  show ?case by simp
next
  case (Cons inst rest)
  obtain left right g1 where gen: "generate_trial_data np trial_type (rng w) = Inr ((left, right), g1)"
    using generate_trial_data_known [OF tt, of np "rng w"] by blast
  obtain u g2 where u: "np_rand1 np g1 = (u, g2)" by (cases "np_rand1 np g1")
  define p where "p = (if u > 0.5 then (right, left) else (left, right))"
  define w1 where "w1 = w\<lparr> rng := g2, data_sets := (data_sets w)((trial_type, inst) \<mapsto> p) \<rparr>"
  have step: "generate_instances np trial_type (inst # rest) w = generate_instances np trial_type rest w1"
    by (simp add: gen u w1_def p_def)
  have rec: "from_recipe np trial_type p"
    unfolding from_recipe_def p_def using gen by auto
  from Cons.IH [of w1] obtain w' where
    r: "generate_instances np trial_type rest w1 = Inr w'"
    and c: "csv_log w' = csv_log w1" and s: "saved w' = saved w1"
    and f: "\<And>k. k \<notin> Pair trial_type ` set rest \<Longrightarrow> data_sets w' k = data_sets w1 k"
    and d: "\<And>i. i \<in> set rest \<Longrightarrow> \<exists>p. data_sets w' (trial_type, i) = Some p \<and> from_recipe np trial_type p"
    by blast
  have d': "\<exists>q. data_sets w' (trial_type, i) = Some q \<and> from_recipe np trial_type q"
    if "i \<in> set (inst # rest)" for i
  proof (cases "i \<in> set rest")
    case True
    then show ?thesis by (rule d)
  next
    case False
    with that have "i = inst" by simp
    moreover have "data_sets w' (trial_type, inst) = data_sets w1 (trial_type, inst)"
      using False \<open>i = inst\<close> by (intro f) auto
    ultimately show ?thesis using rec by (simp add: w1_def)
  qed
  have f': "data_sets w' k = data_sets w k" if "k \<notin> Pair trial_type ` set (inst # rest)" for k
  proof -
    have "data_sets w' k = data_sets w1 k" using that by (intro f) auto
    also have "\<dots> = data_sets w k" using that by (auto simp: w1_def)
    finally show ?thesis .
  qed
  show ?case
    unfolding step using r c s f' d' by (auto simp: w1_def)
qed

lemma generate_data_sets_spec:
  assumes "set tts \<subseteq> set trial_types"
  shows "\<exists>w'. generate_data_sets np tts w = Inr w'
      \<and> csv_log w' = csv_log w \<and> saved w' = saved w
      \<and> (\<forall>k. fst k \<notin> set tts \<longrightarrow> data_sets w' k = data_sets w k)
      \<and> (\<forall>trial_type \<in> set tts. \<forall>i \<in> set (py_range num_instances_per_trial_type).
            \<exists>p. data_sets w' (trial_type, i) = Some p \<and> from_recipe np trial_type p)"
  using assms
proof (induction tts arbitrary: w)
  case Nil
  show ?case by simp
next
  case (Cons tt rest)
  then have tt: "tt \<in> set trial_types" and sub: "set rest \<subseteq> set trial_types" by auto
  let ?R = "py_range num_instances_per_trial_type"
  from generate_instances_spec [OF tt, of np ?R w] obtain w1 where
    r1: "generate_instances np tt ?R w = Inr w1"
    and c1: "csv_log w1 = csv_log w" and s1: "saved w1 = saved w"
    and f1: "\<And>k. k \<notin> Pair tt ` set ?R \<Longrightarrow> data_sets w1 k = data_sets w k"
    and d1: "\<And>i. i \<in> set ?R \<Longrightarrow> \<exists>p. data_sets w1 (tt, i) = Some p \<and> from_recipe np tt p"
    by blast
  from Cons.IH [OF sub, of w1] obtain w' where
    r: "generate_data_sets np rest w1 = Inr w'"
    and c: "csv_log w' = csv_log w1" and s: "saved w' = saved w1"
    and f: "\<And>k. fst k \<notin> set rest \<Longrightarrow> data_sets w' k = data_sets w1 k"
    and d: "\<And>t i. t \<in> set rest \<Longrightarrow> i \<in> set ?R \<Longrightarrow> \<exists>p. data_sets w' (t, i) = Some p \<and> from_recipe np t p"
    by blast
  have d': "\<exists>p. data_sets w' (t, i) = Some p \<and> from_recipe np t p"
    if "t \<in> set (tt # rest)" "i \<in> set ?R" for t i
  proof (cases "t \<in> set rest")
    case True
    then show ?thesis using that(2) by (rule d)
  next
    case False
    with that have "t = tt" by simp
    moreover have "data_sets w' (tt, i) = data_sets w1 (tt, i)"
      using False \<open>t = tt\<close> by (intro f) auto
    ultimately show ?thesis using d1 [OF that(2)] by simp
  qed
  have f': "data_sets w' k = data_sets w k" if "fst k \<notin> set (tt # rest)" for k
  proof -
    have "data_sets w' k = data_sets w1 k" using that by (intro f) auto
    also have "\<dots> = data_sets w k" using that by (intro f1) auto
    finally show ?thesis .
  qed
  show ?case
    using r1 r c s c1 s1 f' d' by auto
qed

subsection \<open>The logging loops\<close>

lemma plot_trial_frame:
  "data_sets (plot_trial np od l r c tt i w) = data_sets w"
  "csv_log (plot_trial np od l r c tt i w) = csv_log w"
  "map fst (saved (plot_trial np od l r c tt i w)) = map fst (saved w) @ [image_path od tt i c]"
  by (auto simp: plot_trial_def image_path_def Let_def split: prod.splits)

lemma condition_loop_spec:
  "fst (condition_loop np od tt inst l r lsd rsd mv cs (i, w)) = i + int (length cs)
   \<and> data_sets (snd (condition_loop np od tt inst l r lsd rsd mv cs (i, w))) = data_sets w
   \<and> csv_log (snd (condition_loop np od tt inst l r lsd rsd mv cs (i, w)))
       = csv_log w @ number_from i (csv_row tt inst lsd rsd mv) cs
   \<and> map fst (saved (snd (condition_loop np od tt inst l r lsd rsd mv cs (i, w))))
       = map fst (saved w) @ number_from i (image_path od tt) cs"
proof (induction cs arbitrary: i w)
  case Nil
  show ?case by simp
next
  case (Cons c cs)
  show ?case
    by (simp add: Cons.IH Let_def plot_trial_frame csv_row_def)
qed

lemma log_instances_spec:
  assumes "\<forall>i \<in> set insts. data_sets w (trial_type, i) \<noteq> None"
  shows "\<exists>w'. log_instances np od trial_type insts (i0, w)
            = Inr (i0 + int (length conditions) * int (length insts), w')
      \<and> data_sets w' = data_sets w
      \<and> csv_log w' = csv_log w @ per_instance (data_set_rows np) i0 trial_type insts (data_sets w)
      \<and> map fst (saved w') = map fst (saved w) @ per_instance (data_set_paths od) i0 trial_type insts (data_sets w)"
  using assms
proof (induction insts arbitrary: i0 w)
  case Nil
  show ?case by simp
next
  case (Cons inst rest)
  then obtain left right where p: "data_sets w (trial_type, inst) = Some (left, right)"
    by fastforce
  define s1 where "s1 = condition_loop np od trial_type inst left right (np_std np left 1) (np_std np right 1)
      (more_variable np (left, right)) conditions (i0, w)"
  have step: "log_instances np od trial_type (inst # rest) (i0, w)
      = log_instances np od trial_type rest (fst s1, snd s1)"
    by (simp add: p s1_def Let_def more_variable_def)
  note cl = condition_loop_spec [of np od trial_type inst left right "np_std np left 1" "np_std np right 1"
      "more_variable np (left, right)" conditions i0 w, folded s1_def]
  have ds1: "data_sets (snd s1) = data_sets w" using cl by simp
  have "\<forall>i \<in> set rest. data_sets (snd s1) (trial_type, i) \<noteq> None"
    using Cons.prems by (simp add: ds1)
  from Cons.IH [OF this, of "fst s1"] obtain w' where
    r: "log_instances np od trial_type rest (fst s1, snd s1)
          = Inr (fst s1 + int (length conditions) * int (length rest), w')"
    and d: "data_sets w' = data_sets (snd s1)"
    and c: "csv_log w' = csv_log (snd s1) @ per_instance (data_set_rows np) (fst s1) trial_type rest (data_sets (snd s1))"
    and s: "map fst (saved w') = map fst (saved (snd s1)) @ per_instance (data_set_paths od) (fst s1) trial_type rest (data_sets (snd s1))"
    by blast
  have b1: "data_set_rows np i0 trial_type inst (left, right)
      = number_from i0 (csv_row trial_type inst (np_std np left 1) (np_std np right 1)
          (more_variable np (left, right))) conditions"
    by (simp add: data_set_rows_def)
  have b2: "data_set_paths od i0 trial_type inst (left, right)
      = number_from i0 (image_path od trial_type) conditions"
    by (simp add: data_set_paths_def)
  show ?case
    unfolding step r using d c s cl
    by (simp add: p b1 b2 algebra_simps)
qed

lemma log_trial_types_spec:
  assumes "\<forall>t \<in> set tts. \<forall>i \<in> set (py_range num_instances_per_trial_type). data_sets w (t, i) \<noteq> None"
  shows "\<exists>i' w'. log_trial_types np od tts (i0, w) = Inr (i', w')
      \<and> data_sets w' = data_sets w
      \<and> csv_log w' = csv_log w @ per_trial_type (data_set_rows np) i0 tts (data_sets w)
      \<and> map fst (saved w') = map fst (saved w) @ per_trial_type (data_set_paths od) i0 tts (data_sets w)"
  using assms
proof (induction tts arbitrary: i0 w)
  case Nil
  show ?case by simp
next
  case (Cons tt rest)
  let ?R = "py_range num_instances_per_trial_type"
  have "\<forall>i \<in> set ?R. data_sets w (tt, i) \<noteq> None" using Cons.prems by simp
  from log_instances_spec [OF this, of np od i0] obtain w1 where
    r1: "log_instances np od tt ?R (i0, w) = Inr (i0 + int (length conditions) * int (length ?R), w1)"
    and d1: "data_sets w1 = data_sets w"
    and c1: "csv_log w1 = csv_log w @ per_instance (data_set_rows np) i0 tt ?R (data_sets w)"
    and s1: "map fst (saved w1) = map fst (saved w) @ per_instance (data_set_paths od) i0 tt ?R (data_sets w)"
    by blast
  have "\<forall>t \<in> set rest. \<forall>i \<in> set ?R. data_sets w1 (t, i) \<noteq> None"
    using Cons.prems by (simp add: d1)
  from Cons.IH [OF this, of "i0 + int (length conditions) * int (length ?R)"] obtain i' w' where
    r: "log_trial_types np od rest (i0 + int (length conditions) * int (length ?R), w1) = Inr (i', w')"
    and d: "data_sets w' = data_sets w1"
    and c: "csv_log w' = csv_log w1 @ per_trial_type (data_set_rows np) (i0 + int (length conditions) * int (length ?R)) rest (data_sets w1)"
    and s: "map fst (saved w') = map fst (saved w1) @ per_trial_type (data_set_paths od) (i0 + int (length conditions) * int (length ?R)) rest (data_sets w1)"
    by blast
  have len: "int (length ?R) = num_instances_per_trial_type"
    by (simp add: py_range_def num_instances_per_trial_type_def)
  show ?case
    using r1 r d c s d1 c1 s1 by (simp add: len)
qed

subsection \<open>A run\<close>

lemma run_spec:
  "\<exists>w. run np seed script_dir = Inr w
     \<and> (\<forall>trial_type \<in> set trial_types. \<forall>i \<in> set (py_range num_instances_per_trial_type).
            \<exists>p. data_sets w (trial_type, i) = Some p \<and> from_recipe np trial_type p)
     \<and> csv_log w = csv_header # per_trial_type (data_set_rows np) 1 trial_types (data_sets w)
     \<and> map fst (saved w)
         = per_trial_type (data_set_paths (path_join script_dir ''boxplot_stimuli'')) 1 trial_types (data_sets w)
     \<and> (\<exists>w1. generate_data_sets np trial_types
                 \<lparr> rng = np_seed np seed, data_sets = Map.empty, csv_log = [], saved = [] \<rparr> = Inr w1
            \<and> data_sets w = data_sets w1)"
proof -
  let ?w0 = "\<lparr> rng = np_seed np seed, data_sets = Map.empty, csv_log = [], saved = [] \<rparr>"
  let ?od = "path_join script_dir ''boxplot_stimuli''"
  from generate_data_sets_spec [of trial_types np ?w0] obtain w1 where
    g: "generate_data_sets np trial_types ?w0 = Inr w1"
    and s1: "saved w1 = []"
    and d1: "\<forall>trial_type \<in> set trial_types. \<forall>i \<in> set (py_range num_instances_per_trial_type).
            \<exists>p. data_sets w1 (trial_type, i) = Some p \<and> from_recipe np trial_type p"
    by auto
  let ?w1 = "w1\<lparr> csv_log := [csv_header] \<rparr>"
  have "\<forall>t \<in> set trial_types. \<forall>i \<in> set (py_range num_instances_per_trial_type). data_sets ?w1 (t, i) \<noteq> None"
    using d1 by fastforce
  from log_trial_types_spec [OF this, of np ?od 1] obtain i' w2 where
    l: "log_trial_types np ?od trial_types (1, ?w1) = Inr (i', w2)"
    and d: "data_sets w2 = data_sets w1"
    and c: "csv_log w2 = [csv_header] @ per_trial_type (data_set_rows np) 1 trial_types (data_sets w1)"
    and s: "map fst (saved w2) = map fst (saved ?w1) @ per_trial_type (data_set_paths ?od) 1 trial_types (data_sets w1)"
    by auto
  have "run np seed script_dir = Inr w2"
    by (simp add: run_def g l)
  then show ?thesis
    using d c s s1 d1 g by simp
qed

lemma first_data_set:
  assumes gen: "generate_trial_data np ''Different SDs'' (np_seed np seed) = Inr ((l, r), g1)"
    and run: "run np seed script_dir = Inr w"
  shows "data_sets w (''Different SDs'', 0)
           = Some (if fst (np_rand1 np g1) > 0.5 then (r, l) else (l, r))"
proof -
  let ?w0 = "\<lparr> rng = np_seed np seed, data_sets = Map.empty, csv_log = [], saved = [] \<rparr>"
  let ?DS = "''Different SDs''"
  let ?rest = "[''Outlier vs No-Outlier'', ''Skew vs Symmetric'', ''Unequal Sample Size'']"
  define p where "p = (if fst (np_rand1 np g1) > 0.5 then (r, l) else (l, r))"
  define wb where "wb = ?w0\<lparr> rng := snd (np_rand1 np g1), data_sets := Map.empty((?DS, 0::int) \<mapsto> p) \<rparr>"
  from run_spec [of np seed script_dir] run obtain w1 where
    g: "generate_data_sets np trial_types ?w0 = Inr w1" and dw: "data_sets w = data_sets w1"
    by auto
  have step': "generate_instances np ?DS (0 # insts) ?w0 = generate_instances np ?DS insts wb"
    for insts
    by (cases "np_rand1 np g1") (simp add: gen wb_def p_def)
  have step: "generate_instances np ?DS [0, 1, 2, 3] ?w0 = generate_instances np ?DS [1, 2, 3] wb"
    by (rule step')
  have ds: "?DS \<in> set trial_types" by (simp add: trial_types_def)
  from generate_instances_spec [OF ds, of np "[1, 2, 3]" wb] obtain wa where
    ra: "generate_instances np ?DS [1, 2, 3] wb = Inr wa"
    and fa: "\<forall>k. k \<notin> Pair ?DS ` set [1, 2, 3] \<longrightarrow> data_sets wa k = data_sets wb k"
    by blast
  have "(?DS, 0::int) \<notin> Pair ?DS ` set [1, 2, 3]" by auto
  with fa have a: "data_sets wa (?DS, 0) = data_sets wb (?DS, 0)" by blast
  have sub: "set ?rest \<subseteq> set trial_types" by (simp add: trial_types_def)
  from generate_data_sets_spec [OF sub, of np wa] obtain w1' where
    r1: "generate_data_sets np ?rest wa = Inr w1'"
    and f1: "\<forall>k. fst k \<notin> set ?rest \<longrightarrow> data_sets w1' k = data_sets wa k"
    by blast
  have "fst (?DS, 0::int) \<notin> set ?rest" by simp
  with f1 have b: "data_sets w1' (?DS, 0) = data_sets wa (?DS, 0)" by blast
  have "generate_data_sets np trial_types ?w0
      = (case generate_instances np ?DS (py_range num_instances_per_trial_type) ?w0 of
           Inl e \<Rightarrow> Inl e | Inr wa \<Rightarrow> generate_data_sets np ?rest wa)"
    unfolding trial_types_def by (rule generate_data_sets.simps(2))
  also have "\<dots> = generate_data_sets np ?rest wa"
    by (simp only: py_range_4 step ra sum.case)
  finally have "generate_data_sets np trial_types ?w0 = Inr w1'"
    by (simp only: r1)
  with g have "w1 = w1'" by simp
  with dw a b show ?thesis by (simp add: wb_def p_def)
qed

lemma first_row:
  assumes run: "run np seed script_dir = Inr w"
    and ds: "data_sets w (''Different SDs'', 0) = Some (l, r)"
  shows "tl (csv_log w) \<noteq> [] \<and> hd (tl (csv_log w))
       = csv_row ''Different SDs'' 0 (np_std np l 1) (np_std np r 1) (more_variable np (l, r)) 1
           (''Jitter On'', ''Tukey'', ''Points On'')"
proof -
  from run_spec [of np seed script_dir] run have
    c: "csv_log w = csv_header # per_trial_type (data_set_rows np) 1 trial_types (data_sets w)"
    by auto
  have "per_trial_type (data_set_rows np) 1 trial_types (data_sets w)
      = (data_set_rows np 1 ''Different SDs'' 0 (l, r)
          @ per_instance (data_set_rows np) (1 + int (length conditions)) ''Different SDs'' [1, 2, 3] (data_sets w))
        @ per_trial_type (data_set_rows np) (1 + int (length conditions) * num_instances_per_trial_type)
            [''Outlier vs No-Outlier'', ''Skew vs Symmetric'', ''Unequal Sample Size''] (data_sets w)"
    unfolding trial_types_def by (simp add: py_range_4 ds)
  moreover have "data_set_rows np 1 ''Different SDs'' 0 (l, r)
      = csv_row ''Different SDs'' 0 (np_std np l 1) (np_std np r 1) (more_variable np (l, r)) 1
           (''Jitter On'', ''Tukey'', ''Points On'')
        # number_from 2 (csv_row ''Different SDs'' 0 (np_std np l 1) (np_std np r 1) (more_variable np (l, r)))
            (tl conditions)"
    by (simp add: data_set_rows_def conditions_def)
  ultimately show ?thesis by (simp add: c)
qed

lemma run_independent_of_dir:
  "csv_rows_of (run np seed dir1) = csv_rows_of (run np seed dir2)
     \<and> data_sets_of (run np seed dir1) = data_sets_of (run np seed dir2)
     \<and> csv_rows_of (run np seed dir1) \<noteq> []"
proof -
  from run_spec [of np seed dir1] obtain w w1 where
    r: "run np seed dir1 = Inr w"
    and c: "csv_log w = csv_header # per_trial_type (data_set_rows np) 1 trial_types (data_sets w)"
    and g: "generate_data_sets np trial_types
                 \<lparr> rng = np_seed np seed, data_sets = Map.empty, csv_log = [], saved = [] \<rparr> = Inr w1"
    and d: "data_sets w = data_sets w1"
    by blast
  from run_spec [of np seed dir2] obtain w' w1' where
    r': "run np seed dir2 = Inr w'"
    and c': "csv_log w' = csv_header # per_trial_type (data_set_rows np) 1 trial_types (data_sets w')"
    and g': "generate_data_sets np trial_types
                 \<lparr> rng = np_seed np seed, data_sets = Map.empty, csv_log = [], saved = [] \<rparr> = Inr w1'"
    and d': "data_sets w' = data_sets w1'"
    by blast
  from g g' have "w1 = w1'" by simp
  with d d' have ds: "data_sets w = data_sets w'" by simp
  with c c' have rows: "csv_log w = csv_log w'" by simp
  show ?thesis
    by (simp add: csv_rows_of_def data_sets_of_def r r' rows ds) (simp add: c')
qed

subsection \<open>Decimal strings\<close>

lemma digit_char_cases:
  "digit_char d \<in> set ''0123456789''"
proof -
  have "d mod 10 < length ''0123456789''" by simp
  then show ?thesis unfolding digit_char_def by (rule nth_mem)
qed

lemma digit_val_digit_char: "digit_val (digit_char d) = d mod 10"
proof -
  have "\<forall>k < 10. digit_val (''0123456789'' ! k) = k"
    by (simp add: digit_val_def numeral_eq_Suc less_Suc_eq) 
  then show ?thesis by (simp add: digit_char_def)
qed

lemma nat_of_digits_snoc: "nat_of_digits (s @ [c]) = 10 * nat_of_digits s + digit_val c"
  by (simp add: nat_of_digits_def)

lemma nat_of_digits_str_nat: "nat_of_digits (str_nat n) = n"
proof (induction n rule: str_nat.induct)
  case (1 n)
  show ?case
  proof (cases "n < 10")
    case True
    then show ?thesis
      by (subst str_nat.simps) (simp add: nat_of_digits_def digit_val_digit_char)
  next
    case False
    with 1 have "nat_of_digits (str_nat (n div 10)) = n div 10" by simp
    with False show ?thesis
      by (subst str_nat.simps) (simp add: nat_of_digits_snoc digit_val_digit_char)
  qed
qed

lemma str_nat_inj: "str_nat m = str_nat n \<Longrightarrow> m = n"
  by (metis nat_of_digits_str_nat)

lemma str_nat_digits: "set (str_nat n) \<subseteq> set ''0123456789''"
proof (induction n rule: str_nat.induct)
  case (1 n)
  show ?case
  proof (cases "n < 10")
    case True
    then show ?thesis
      using digit_char_cases [of n] by (subst str_nat.simps) simp
  next
    case False
    with 1 have "set (str_nat (n div 10)) \<subseteq> set ''0123456789''" by simp
    with False show ?thesis
      using digit_char_cases [of "n mod 10"] by (subst str_nat.simps) simp
  qed
qed

lemma str_nat_nonempty: "str_nat n \<noteq> []"
  by (subst str_nat.simps) simp

lemma str_int_inj: "str_int i = str_int j \<Longrightarrow> i = j"
proof -
  assume e: "str_int i = str_int j"
  have nd: "CHR ''-'' \<noteq> hd (str_nat n)" for n
  proof -
    have "hd (str_nat n) \<in> set (str_nat n)" by (simp add: str_nat_nonempty)
    then have "hd (str_nat n) \<in> set ''0123456789''" using str_nat_digits [of n] by blast
    then show ?thesis by auto
  qed
  show ?thesis
  proof (cases "i < 0")
    case True
    show ?thesis
    proof (cases "j < 0")
      case j: True
      from e True j have "str_nat (nat (- i)) = str_nat (nat (- j))" by (simp add: str_int_def)
      then have "nat (- i) = nat (- j)" by (rule str_nat_inj)
      with True j show ?thesis by simp
    next
      case j: False
      from e True j have "CHR ''-'' # str_nat (nat (- i)) = str_nat (nat j)" by (simp add: str_int_def)
      then have "CHR ''-'' = hd (str_nat (nat j))" by (metis list.sel(1))
      with nd show ?thesis by blast
    qed
  next
    case False
    show ?thesis
    proof (cases "j < 0")
      case j: True
      from e False j have "str_nat (nat i) = CHR ''-'' # str_nat (nat (- j))" by (simp add: str_int_def)
      then have "CHR ''-'' = hd (str_nat (nat i))" by (metis list.sel(1))
      with nd show ?thesis by blast
    next
      case j: False
      from e False j have "str_nat (nat i) = str_nat (nat j)" by (simp add: str_int_def)
      then have "nat i = nat j" by (rule str_nat_inj)
      with False j show ?thesis by simp
    qed
  qed
qed

lemma str_int_eq_iff: "str_int i = str_int j \<longleftrightarrow> i = j"
  using str_int_inj by blast

lemma str_int_no_underscore: "CHR ''_'' \<notin> set (str_int i)"
  using str_nat_digits [of "nat i"] str_nat_digits [of "nat (- i)"]
  by (auto simp: str_int_def)

lemma str_int_hd: "str_int i \<noteq> [] \<and> hd (str_int i) \<noteq> CHR ''/''"
proof -
  have d: "hd (str_nat n) \<noteq> CHR ''/''" for n
  proof -
    have "hd (str_nat n) \<in> set (str_nat n)" by (simp add: str_nat_nonempty)
    then have "hd (str_nat n) \<in> set ''0123456789''" using str_nat_digits [of n] by blast
    then show ?thesis by auto
  qed
  show ?thesis by (simp add: str_int_def str_nat_nonempty d)
qed

lemma str_int_small: "str_int 0 = ''0''" "str_int 1 = ''1''"
  by (simp_all add: str_int_def str_nat.simps digit_char_def)

subsection \<open>Rows of the log\<close>

lemma field_csv_row:
  "field ''TrialIdx'' (csv_row tt inst a b mv i c) = str_int i"
  "field ''TrialType'' (csv_row tt inst a b mv i c) = tt"
  "field ''Instance'' (csv_row tt inst a b mv i c) = str_int inst"
  "field ''Jitter'' (csv_row tt inst a b mv i c) = fst c"
  "field ''Whisker'' (csv_row tt inst a b mv i c) = fst (snd c)"
  "field ''Points'' (csv_row tt inst a b mv i c) = snd (snd c)"
  "field ''Left_SD'' (csv_row tt inst a b mv i c) = fmt_3f a"
  "field ''Right_SD'' (csv_row tt inst a b mv i c) = fmt_3f b"
  "field ''More_Variable'' (csv_row tt inst a b mv i c) = mv"
  by (simp_all add: field_def csv_header_def csv_row_def)


lemma number_from_mem:
  "r \<in> set (number_from i f xs) \<Longrightarrow> \<exists>j x. x \<in> set xs \<and> r = f j x"
proof (induction xs arbitrary: i)
  case Nil
  then show ?case by simp
next
  case (Cons a xs)
  from Cons.prems consider "r = f i a" | "r \<in> set (number_from (i + 1) f xs)" by auto
  then show ?case
  proof cases
    case 1
    then show ?thesis by auto
  next
    case 2
    from Cons.IH [OF 2] show ?thesis by auto
  qed
qed

lemma per_instance_mem:
  "r \<in> set (per_instance (data_set_rows np) i trial_type insts ds) \<Longrightarrow>
     \<exists>inst \<in> set insts. \<exists>j c. c \<in> set conditions \<and>
        r = csv_row trial_type inst (np_std np (fst (the (ds (trial_type, inst)))) 1)
              (np_std np (snd (the (ds (trial_type, inst)))) 1)
              (more_variable np (the (ds (trial_type, inst)))) j c"
proof (induction insts arbitrary: i)
  case Nil
  then show ?case by simp
next
  case (Cons inst rest)
  from Cons.prems
  consider "r \<in> set (data_set_rows np i trial_type inst (the (ds (trial_type, inst))))"
    | "r \<in> set (per_instance (data_set_rows np) (i + int (length conditions)) trial_type rest ds)"
    by auto
  then show ?case
  proof cases
    case 1
    then show ?thesis
      unfolding data_set_rows_def by (auto dest!: number_from_mem)
  next
    case 2
    from Cons.IH [OF 2] show ?thesis by auto
  qed
qed

lemma per_trial_type_mem:
  "r \<in> set (per_trial_type (data_set_rows np) i tts ds) \<Longrightarrow>
     \<exists>trial_type \<in> set tts. \<exists>inst \<in> set (py_range num_instances_per_trial_type).
       \<exists>j c. c \<in> set conditions \<and>
        r = csv_row trial_type inst (np_std np (fst (the (ds (trial_type, inst)))) 1)
              (np_std np (snd (the (ds (trial_type, inst)))) 1)
              (more_variable np (the (ds (trial_type, inst)))) j c"
proof (induction tts arbitrary: i)
  case Nil
  then show ?case by simp
next
  case (Cons tt rest)
  from Cons.prems
  consider "r \<in> set (per_instance (data_set_rows np) i tt (py_range num_instances_per_trial_type) ds)"
    | "r \<in> set (per_trial_type (data_set_rows np)
                   (i + int (length conditions) * num_instances_per_trial_type) rest ds)"
    by auto
  then show ?case
  proof cases
    case 1
    from per_instance_mem [OF 1] show ?thesis by auto
  next
    case 2
    from Cons.IH [OF 2] show ?thesis by auto
  qed
qed

lemma length_number_from: "length (number_from i f xs) = length xs"
  by (induction xs arbitrary: i) simp_all

lemma filter_number_from:
  assumes "\<And>j x. P (f j x) = b"
  shows "filter P (number_from i f xs) = (if b then number_from i f xs else [])"
  using assms by (induction xs arbitrary: i) simp_all

lemma count_list_distinct: "distinct xs \<Longrightarrow> x \<in> set xs \<Longrightarrow> count_list xs x = 1"
  by (induction xs) (auto simp: count_list_0_iff)

lemma filter_data_set_rows:
  "length (filter (\<lambda>r. field ''TrialType'' r = trial_type \<and> field ''Instance'' r = str_int i)
     (data_set_rows np j tt inst p)) = (if tt = trial_type \<and> inst = i then length conditions else 0)"
proof -
  let ?P = "\<lambda>r. field ''TrialType'' r = trial_type \<and> field ''Instance'' r = str_int i"
  let ?f = "csv_row tt inst (np_std np (fst p) 1) (np_std np (snd p) 1) (more_variable np p)"
  have "?P (?f k c) = (tt = trial_type \<and> inst = i)" for k c
    by (simp add: field_csv_row str_int_eq_iff)
  from filter_number_from [of ?P ?f, OF this]
  show ?thesis by (simp add: data_set_rows_def length_number_from)
qed

lemma filter_per_instance:
  "length (filter (\<lambda>r. field ''TrialType'' r = trial_type \<and> field ''Instance'' r = str_int i)
     (per_instance (data_set_rows np) j tt insts ds))
   = (if tt = trial_type then length conditions * count_list insts i else 0)"
  by (induction insts arbitrary: j) (simp_all add: filter_data_set_rows)

lemma filter_per_trial_type:
  "length (filter (\<lambda>r. field ''TrialType'' r = trial_type \<and> field ''Instance'' r = str_int i)
     (per_trial_type (data_set_rows np) j tts ds))
   = length conditions * count_list (py_range num_instances_per_trial_type) i * count_list tts trial_type"
  by (induction tts arbitrary: j) (simp_all add: filter_per_instance algebra_simps)

lemma rows_per_data_set:
  assumes "trial_type \<in> set trial_types" "i \<in> set (py_range num_instances_per_trial_type)"
  shows "length (filter (\<lambda>r. field ''TrialType'' r = trial_type \<and> field ''Instance'' r = str_int i)
     (per_trial_type (data_set_rows np) 1 trial_types ds)) = 8"
proof -
  have "distinct trial_types" by (simp add: trial_types_def)
  then have a: "count_list trial_types trial_type = 1" using assms(1) by (rule count_list_distinct)
  have "distinct (py_range num_instances_per_trial_type)" by (simp add: py_range_4)
  then have b: "count_list (py_range num_instances_per_trial_type) i = 1"
    using assms(2) by (rule count_list_distinct)
  have c: "length conditions = 8" by (simp add: conditions_def)
  show ?thesis by (simp add: filter_per_trial_type a b c)
qed

lemma logged_rows:
  "\<exists>w. run np seed script_dir = Inr w \<and> csv_log w \<noteq> []
     \<and> (\<forall>row \<in> set (tl (csv_log w)).
          \<exists>trial_type inst left right j c.
            trial_type \<in> set trial_types \<and> inst \<in> set (py_range num_instances_per_trial_type)
            \<and> c \<in> set conditions
            \<and> data_sets w (trial_type, inst) = Some (left, right)
            \<and> from_recipe np trial_type (left, right)
            \<and> row = csv_row trial_type inst (np_std np left 1) (np_std np right 1)
                      (more_variable np (left, right)) j c)"
proof -
  from run_spec [of np seed script_dir] obtain w where
    r: "run np seed script_dir = Inr w"
    and d: "\<forall>trial_type \<in> set trial_types. \<forall>i \<in> set (py_range num_instances_per_trial_type).
            \<exists>p. data_sets w (trial_type, i) = Some p \<and> from_recipe np trial_type p"
    and c: "csv_log w = csv_header # per_trial_type (data_set_rows np) 1 trial_types (data_sets w)"
    by blast
  have "\<exists>trial_type inst left right j c.
            trial_type \<in> set trial_types \<and> inst \<in> set (py_range num_instances_per_trial_type)
            \<and> c \<in> set conditions
            \<and> data_sets w (trial_type, inst) = Some (left, right)
            \<and> from_recipe np trial_type (left, right)
            \<and> row = csv_row trial_type inst (np_std np left 1) (np_std np right 1)
                      (more_variable np (left, right)) j c"
    if "row \<in> set (tl (csv_log w))" for row
  proof -
    from that c have "row \<in> set (per_trial_type (data_set_rows np) 1 trial_types (data_sets w))" by simp
    from per_trial_type_mem [OF this] obtain tt inst j cnd where
      tt: "tt \<in> set trial_types" and inst: "inst \<in> set (py_range num_instances_per_trial_type)"
      and cnd: "cnd \<in> set conditions"
      and row: "row = csv_row tt inst (np_std np (fst (the (data_sets w (tt, inst)))) 1)
              (np_std np (snd (the (data_sets w (tt, inst)))) 1)
              (more_variable np (the (data_sets w (tt, inst)))) j cnd"
      by blast
    from d tt inst obtain p where p: "data_sets w (tt, inst) = Some p" and f: "from_recipe np tt p"
      by blast
    obtain left right where lr: "p = (left, right)" by (cases p)
    from row p lr have "row = csv_row tt inst (np_std np left 1) (np_std np right 1)
                      (more_variable np (left, right)) j cnd" by simp
    with tt inst cnd p f lr show ?thesis by blast
  qed
  then have "\<forall>row \<in> set (tl (csv_log w)). \<exists>trial_type inst left right j c.
            trial_type \<in> set trial_types \<and> inst \<in> set (py_range num_instances_per_trial_type)
            \<and> c \<in> set conditions
            \<and> data_sets w (trial_type, inst) = Some (left, right)
            \<and> from_recipe np trial_type (left, right)
            \<and> row = csv_row trial_type inst (np_std np left 1) (np_std np right 1)
                      (more_variable np (left, right)) j c" by (rule ballI)
  moreover have "csv_log w \<noteq> []" using c by simp
  ultimately show ?thesis using r by (intro exI [of _ w] conjI)
qed

subsection \<open>Standard deviation and format\<close>


lemma exact_std_constant: "exact_std (replicate n c) d = 0"
  by (cases "n = 0") (simp_all add: exact_std_def Let_def sum_list_replicate)














lemma fmt_3f_small:
  assumes "0 \<le> x" "x < 1 / 2000"
  shows "fmt_3f x = ''0.000''"
proof -
  have y: "0 \<le> x * 1000" "x * 1000 < 1 / 2" using assms by simp_all
  then have fl: "\<lfloor>x * 1000\<rfloor> = 0" by (simp add: floor_eq_iff)
  have "round_half_even (x * 1000) = 0"
    using y by (simp add: round_half_even_def fl Let_def)
  then have "nat (round_half_even (\<bar>x\<bar> * 1000)) = 0" using assms by simp
  then show ?thesis
    using assms by (simp add: fmt_3f_def Let_def str_nat.simps digit_char_def)
qed

subsection \<open>File names\<close>

lemma str_replace_char: "str_replace s old [new] = map (\<lambda>c. if c = old then new else c) s"
  by (induction s) (simp_all add: str_replace_def)

lemma str_replace_delete: "str_replace s old [] = filter (\<lambda>c. c \<noteq> old) s"
  by (induction s) (simp_all add: str_replace_def)

lemma trial_filename_grammar:
  "trial_filename i trial_type jitter whisker points = grammar_filename i trial_type jitter whisker points"
  by (simp add: trial_filename_def grammar_filename_def str_replace_char str_replace_delete)

lemma image_path_split:
  "image_path od trial_type i c
     = dir_prefix od @ grammar_filename i trial_type (fst c) (fst (snd c)) (snd (snd c))"
proof -
  let ?f = "grammar_filename i trial_type (fst c) (fst (snd c)) (snd (snd c))"
  have ne: "?f \<noteq> []" by (simp add: grammar_filename_def)
  have "hd ?f = hd (str_int i)"
    using str_int_hd [of i] by (simp add: grammar_filename_def)
  with str_int_hd [of i] have "hd ?f \<noteq> CHR ''/''" by simp
  with ne show ?thesis
    by (simp add: image_path_def trial_filename_grammar path_join_def dir_prefix_def)
qed

lemma index_of_image_path:
  "takeWhile (\<lambda>c. c \<noteq> CHR ''_'') (drop (length (dir_prefix od)) (image_path od trial_type i c))
     = str_int i"
proof -
  have "\<forall>x \<in> set (str_int i). x \<noteq> CHR ''_''" using str_int_no_underscore [of i] by blast
  then show ?thesis
    by (simp add: image_path_split grammar_filename_def takeWhile_append2)
qed

lemma index_of_paths:
  "map (\<lambda>p. takeWhile (\<lambda>c. c \<noteq> CHR ''_'') (drop (length (dir_prefix od)) p))
     (per_trial_type (data_set_paths od) 1 trial_types ds) = map str_int [1..128]"
  by (simp add: trial_types_def py_range_4n conditions_def num_instances_per_trial_type_def
      data_set_paths_def index_of_image_path upto_rec1)

lemma saved_paths_grammar:
  "per_trial_type (data_set_paths od) 1 trial_types ds
     = map (\<lambda>(i, trial_type, jitter, whisker, points).
              path_join od (grammar_filename i trial_type jitter whisker points))
         (zip [1..128]
            (concat (map (\<lambda>trial_type.
               concat (map (\<lambda>inst. map (\<lambda>c. (trial_type, c)) conditions)
                 (py_range num_instances_per_trial_type))) trial_types)))"
  by (simp add: trial_types_def py_range_4n conditions_def num_instances_per_trial_type_def
      data_set_paths_def image_path_def trial_filename_grammar upto_rec1)

lemma distinct_through:
  assumes "map f xs = ys" "distinct ys"
  shows "distinct xs"
  using assms distinct_map by blast

subsection \<open>The concrete generators\<close>

lemma draws_counter:
  "draws n (\<lambda>g. (f g, Suc g)) g = (map f [g..<g + n], g + n)"
proof (induction n arbitrary: g)
  case 0
  show ?case by simp
next
  case (Suc n)
  have "[g..<g + Suc n] = g # [Suc g..<Suc g + n]" by (simp add: upt_conv_Cons)
  with Suc [of "Suc g"] show ?case by simp
qed

lemma map_const_replicate:
  "(\<And>x. x \<in> set xs \<Longrightarrow> f x = c) \<Longrightarrow> map f xs = replicate (length xs) c"
  by (induction xs) simp_all

lemma demo_random_normal:
  "random_normal demo_numpy loc scale n g = (map (\<lambda>k. loc + scale * demo_stream k) [g..<g + n], g + n)"
  unfolding random_normal_def demo_numpy_def by (simp add: draws_counter)

lemma demo_left:
  "random_normal demo_numpy 5 1 50 0 = (replicate 50 5, 50)"
proof -
  have "map (\<lambda>k. 5 + 1 * demo_stream k) [0..<0 + 50] = replicate (length [0..<0 + 50]) (5::real)"
  proof (rule map_const_replicate)
    fix x :: nat
    assume "x \<in> set [0..<0 + 50]"
    then have "x < 50" by (simp only: set_upt atLeastLessThan_iff) simp
    then show "5 + 1 * demo_stream x = 5" by (simp add: demo_stream_def)
  qed
  then have "map (\<lambda>k. 5 + 1 * demo_stream k) [0..<0 + 50] = replicate 50 (5::real)"
    by (simp only: length_upt) simp
  then show ?thesis
    by (simp only: demo_random_normal) simp
qed

lemma demo_right:
  "random_normal demo_numpy 5 2 50 50
     = ((5 + 2 / 10000) # (5 - 2 / 10000) # replicate 48 5, 100)"
proof -
  have "[50..<50 + 50] = 50 # [51..<100]" by (simp add: upt_rec [of 50] del: upt_rec_numeral)
  also have "[51..<100] = 51 # [52..<100]" by (simp add: upt_rec [of 51] del: upt_rec_numeral)
  finally have u: "[50..<50 + 50] = 50 # 51 # [52..<100]" .
  have "map (\<lambda>k. 5 + 2 * demo_stream k) [52..<100] = replicate (length [52..<100]) (5::real)"
  proof (rule map_const_replicate)
    fix x :: nat
    assume "x \<in> set [52..<100]"
    then have "52 \<le> x" by (simp only: set_upt atLeastLessThan_iff)
    then show "5 + 2 * demo_stream x = 5" by (simp add: demo_stream_def)
  qed
  then have "map (\<lambda>k. 5 + 2 * demo_stream k) [52..<100] = replicate 48 (5::real)"
    by (simp only: length_upt) simp
  then have "map (\<lambda>k. 5 + 2 * demo_stream k) [50..<50 + 50]
     = (5 + 2 / 10000) # (5 - 2 / 10000) # replicate 48 5"
    unfolding u by (simp add: demo_stream_def)
  then show ?thesis
    by (simp only: demo_random_normal) simp
qed

lemma demo_first_generate:
  "generate_trial_data demo_numpy ''Different SDs'' 0
     = Inr ((replicate 50 5, (5 + 2 / 10000) # (5 - 2 / 10000) # replicate 48 5), 100)"
  unfolding generate_trial_data_def
  by (simp add: demo_left demo_right)

lemma exact_std_demo_right:
  "exact_std ((5 + 2 / 10000) # (5 - 2 / 10000) # replicate 48 5) 1 = sqrt (8 / 4900000000)"
  by (simp add: exact_std_def Let_def sum_list_replicate)

lemma demo_sd_right_bounds:
  "0 < sqrt (8 / 4900000000)" "sqrt (8 / 4900000000) < 1 / 2000"
proof -
  show "0 < sqrt (8 / 4900000000)" by simp
  have "sqrt (8 / 4900000000) < sqrt ((1 / 2000)\<^sup>2)"
    by (rule real_sqrt_less_mono) (simp add: power2_eq_square)
  also have "sqrt ((1 / 2000)\<^sup>2) = 1 / 2000" by simp
  finally show "sqrt (8 / 4900000000) < 1 / 2000" .
qed

lemma demo_first_row:
  "\<exists>w. run demo_numpy 2025 script_dir = Inr w
     \<and> data_sets w (''Different SDs'', 0)
          = Some (replicate 50 5, (5 + 2 / 10000) # (5 - 2 / 10000) # replicate 48 5)
     \<and> tl (csv_log w) \<noteq> []
     \<and> hd (tl (csv_log w))
          = [''1'', ''Different SDs'', ''0'', ''Jitter On'', ''Tukey'', ''Points On'',
             ''0.000'', ''0.000'', ''Right'']"
proof -
  let ?l = "replicate 50 (5::real)"
  let ?r = "(5 + 2 / 10000) # (5 - 2 / 10000) # replicate 48 (5::real)"
  from run_spec [of demo_numpy 2025 script_dir] obtain w where
    r: "run demo_numpy 2025 script_dir = Inr w" by blast
  have s: "np_seed demo_numpy 2025 = 0" by (simp add: demo_numpy_def)
  have u: "fst (np_rand1 demo_numpy 100) = 0" by (simp add: demo_numpy_def)
  from first_data_set [OF demo_first_generate [folded s] r]
  have ds: "data_sets w (''Different SDs'', 0) = Some (?l, ?r)"
    by (simp only: u) simp
  note fr = first_row [OF r ds]
  have e: "np_std demo_numpy = exact_std" by (simp add: demo_numpy_def)
  have sl: "np_std demo_numpy ?l 1 = 0" unfolding e by (rule exact_std_constant)
  have sr: "np_std demo_numpy ?r 1 = sqrt (8 / 4900000000)"
    unfolding e by (rule exact_std_demo_right)
  have fl: "fmt_3f (np_std demo_numpy ?l 1) = ''0.000''" unfolding sl by (rule fmt_3f_small) simp_all
  have fr3: "fmt_3f (np_std demo_numpy ?r 1) = ''0.000''"
    unfolding sr using demo_sd_right_bounds by (intro fmt_3f_small) simp_all
  have mv: "more_variable demo_numpy (?l, ?r) = ''Right''"
    unfolding more_variable_def fst_conv snd_conv sl sr
    using demo_sd_right_bounds(1) by simp
  have "hd (tl (csv_log w))
          = [''1'', ''Different SDs'', ''0'', ''Jitter On'', ''Tukey'', ''Points On'',
             ''0.000'', ''0.000'', ''Right'']"
    using fr by (simp only: csv_row_def fl fr3 mv str_int_small fst_conv snd_conv)
  with r ds fr show ?thesis by blast
qed

lemma unit_random_normal:
  "random_normal unit_numpy loc scale n g = (replicate n (loc + scale), g + n)"
proof -
  have "map (\<lambda>k. loc + scale) [g..<g + n] = replicate (length [g..<g + n]) (loc + scale)"
    by (rule map_const_replicate) simp
  then show ?thesis
    unfolding random_normal_def unit_numpy_def by (simp add: draws_counter)
qed

lemma unit_generate_unequal:
  "generate_trial_data unit_numpy ''Unequal Sample Size'' 0
     = Inr ((replicate 80 6, replicate 20 (31 / 5)), 100)"
  unfolding generate_trial_data_def by (simp add: unit_random_normal)

lemma unit_equal_spread:
  "equal_spread_unequal_size unit_numpy sigma 0
     = Inr ((replicate 80 (5 + sigma), replicate 20 (5 + sigma)), 100)"
  unfolding equal_spread_unequal_size_def by (simp add: unit_random_normal)

subsection \<open>Reading a file\<close>

lemma read_text_error_is_Exception:
  "read_text fs path = Inl e \<Longrightarrow> is_Exception e"
  by (auto simp: read_text_def split: option.splits file_node.splits)

section \<open>The claims\<close>

text \<open>
  C1. Two runs with the same generator and the same seed leave the same CSV file, byte
  for byte, and the same data sets (hence the same statistics for every trial), in
  whatever directories the script is placed: the CSV content is a function of the seed.
  The script as written seeds the generator once, with 2025.
\<close>

theorem csv_determined_by_seed:
  "csv_text (csv_rows_of (run np seed dir1)) = csv_text (csv_rows_of (run np seed dir2))
     \<and> csv_rows_of (run np seed dir1) = csv_rows_of (run np seed dir2)
     \<and> data_sets_of (run np seed dir1) = data_sets_of (run np seed dir2)
     \<and> csv_rows_of (run np seed dir1) \<noteq> []
     \<and> csv_text (csv_rows_of (main np dir1)) = csv_text (csv_rows_of (main np dir2))"
proof -
  from run_independent_of_dir [of np seed dir1 dir2] have
    e1: "csv_rows_of (run np seed dir1) = csv_rows_of (run np seed dir2)"
    and e2: "data_sets_of (run np seed dir1) = data_sets_of (run np seed dir2)"
    and e3: "csv_rows_of (run np seed dir1) \<noteq> []"
    by blast+
  from run_independent_of_dir [of np 2025 dir1 dir2] have
    e4: "csv_rows_of (run np 2025 dir1) = csv_rows_of (run np 2025 dir2)" by blast
  have t1: "csv_text (csv_rows_of (run np seed dir1)) = csv_text (csv_rows_of (run np seed dir2))"
    by (rule arg_cong [OF e1])
  have t4: "csv_text (csv_rows_of (main np dir1)) = csv_text (csv_rows_of (main np dir2))"
    unfolding main_def by (rule arg_cong [OF e4])
  from t1 e1 e2 e3 t4 show ?thesis by (intro conjI)
qed

text \<open>
  C2, as stated, fails. With the generator \<open>demo_numpy\<close> the first data set is fifty
  values 5.0 on the left and, on the right, 5.0002, 4.9998 and forty-eight values 5.0.
  The left standard deviation is 0 and the right one is about 0.00004: the first data row
  records both as 0.000 and yet labels the row "Right", not "Equal".
\<close>

theorem more_variable_recorded_tie_counterexample:
  "csv_rows_of (main demo_numpy ''/home/lab'') ! 1
     = [''1'', ''Different SDs'', ''0'', ''Jitter On'', ''Tukey'', ''Points On'',
        ''0.000'', ''0.000'', ''Right'']"
proof -
  from demo_first_row [of "''/home/lab''"] obtain w where
    r: "run demo_numpy 2025 ''/home/lab'' = Inr w"
    and n: "tl (csv_log w) \<noteq> []"
    and h: "hd (tl (csv_log w))
          = [''1'', ''Different SDs'', ''0'', ''Jitter On'', ''Tukey'', ''Points On'',
             ''0.000'', ''0.000'', ''Right'']"
    by blast
  from n obtain a b rest where c: "csv_log w = a # b # rest"
    by (cases "csv_log w"; cases "tl (csv_log w)") auto
  from h c have "csv_log w ! 1 = [''1'', ''Different SDs'', ''0'', ''Jitter On'', ''Tukey'', ''Points On'',
             ''0.000'', ''0.000'', ''Right'']" by simp
  then show ?thesis by (simp add: csv_rows_of_def main_def r)
qed

text \<open>
  C2, amended. In every run, each data row of the CSV file belongs to a stored data set,
  and its More_Variable column is "Left" exactly when the unrounded standard deviation of
  the stored left sequence exceeds that of the right one, "Right" exactly when the right
  one exceeds the left one, and "Equal" exactly when the two unrounded values are equal.
  The Left_SD and Right_SD columns record these same values rounded to three decimals.
\<close>

theorem more_variable_compares_unrounded:
  "\<exists>w. run np seed script_dir = Inr w
     \<and> (\<forall>row \<in> set (tl (csv_log w)).
          \<exists>trial_type inst left right.
            data_sets w (trial_type, inst) = Some (left, right)
            \<and> field ''TrialType'' row = trial_type \<and> field ''Instance'' row = str_int inst
            \<and> field ''Left_SD'' row = fmt_3f (np_std np left 1)
            \<and> field ''Right_SD'' row = fmt_3f (np_std np right 1)
            \<and> (field ''More_Variable'' row = ''Left'' \<longleftrightarrow> np_std np left 1 > np_std np right 1)
            \<and> (field ''More_Variable'' row = ''Right'' \<longleftrightarrow> np_std np right 1 > np_std np left 1)
            \<and> (field ''More_Variable'' row = ''Equal'' \<longleftrightarrow> np_std np left 1 = np_std np right 1))"
proof -
  from logged_rows [of np seed script_dir] obtain w where
    r: "run np seed script_dir = Inr w"
    and rows: "\<forall>row \<in> set (tl (csv_log w)).
          \<exists>trial_type inst left right j c.
            trial_type \<in> set trial_types \<and> inst \<in> set (py_range num_instances_per_trial_type)
            \<and> c \<in> set conditions
            \<and> data_sets w (trial_type, inst) = Some (left, right)
            \<and> from_recipe np trial_type (left, right)
            \<and> row = csv_row trial_type inst (np_std np left 1) (np_std np right 1)
                      (more_variable np (left, right)) j c"
    by blast
  have "\<exists>trial_type inst left right.
            data_sets w (trial_type, inst) = Some (left, right)
            \<and> field ''TrialType'' row = trial_type \<and> field ''Instance'' row = str_int inst
            \<and> field ''Left_SD'' row = fmt_3f (np_std np left 1)
            \<and> field ''Right_SD'' row = fmt_3f (np_std np right 1)
            \<and> (field ''More_Variable'' row = ''Left'' \<longleftrightarrow> np_std np left 1 > np_std np right 1)
            \<and> (field ''More_Variable'' row = ''Right'' \<longleftrightarrow> np_std np right 1 > np_std np left 1)
            \<and> (field ''More_Variable'' row = ''Equal'' \<longleftrightarrow> np_std np left 1 = np_std np right 1)"
    if "row \<in> set (tl (csv_log w))" for row
  proof -
    from rows that obtain tt inst left right j c where
      ds: "data_sets w (tt, inst) = Some (left, right)"
      and row: "row = csv_row tt inst (np_std np left 1) (np_std np right 1) (more_variable np (left, right)) j c"
      by blast
    have f: "field ''TrialType'' row = tt" "field ''Instance'' row = str_int inst"
      "field ''Left_SD'' row = fmt_3f (np_std np left 1)"
      "field ''Right_SD'' row = fmt_3f (np_std np right 1)"
      "field ''More_Variable'' row = more_variable np (left, right)"
      unfolding row by (simp_all add: field_csv_row)
    have m: "(more_variable np (left, right) = ''Left'' \<longleftrightarrow> np_std np left 1 > np_std np right 1)"
      "(more_variable np (left, right) = ''Right'' \<longleftrightarrow> np_std np right 1 > np_std np left 1)"
      "(more_variable np (left, right) = ''Equal'' \<longleftrightarrow> np_std np left 1 = np_std np right 1)"
      by (auto simp: more_variable_def)
    from ds f m show ?thesis by (simp only:) blast
  qed
  then have "\<forall>row \<in> set (tl (csv_log w)).
          \<exists>trial_type inst left right.
            data_sets w (trial_type, inst) = Some (left, right)
            \<and> field ''TrialType'' row = trial_type \<and> field ''Instance'' row = str_int inst
            \<and> field ''Left_SD'' row = fmt_3f (np_std np left 1)
            \<and> field ''Right_SD'' row = fmt_3f (np_std np right 1)
            \<and> (field ''More_Variable'' row = ''Left'' \<longleftrightarrow> np_std np left 1 > np_std np right 1)
            \<and> (field ''More_Variable'' row = ''Right'' \<longleftrightarrow> np_std np right 1 > np_std np left 1)
            \<and> (field ''More_Variable'' row = ''Equal'' \<longleftrightarrow> np_std np left 1 = np_std np right 1)"
    by (rule ballI)
  with r show ?thesis by (intro exI [of _ w] conjI)
qed

theorem more_variable_compares_unrounded_witness:
  "\<exists>w. run demo_numpy 2025 ''/home/lab'' = Inr w
     \<and> (\<exists>trial_type inst left right.
            data_sets w (trial_type, inst) = Some (left, right)
            \<and> field ''TrialType'' (hd (tl (csv_log w))) = trial_type
            \<and> field ''Instance'' (hd (tl (csv_log w))) = str_int inst
            \<and> field ''Left_SD'' (hd (tl (csv_log w))) = fmt_3f (np_std demo_numpy left 1)
            \<and> field ''Right_SD'' (hd (tl (csv_log w))) = fmt_3f (np_std demo_numpy right 1)
            \<and> field ''More_Variable'' (hd (tl (csv_log w))) = ''Right''
            \<and> np_std demo_numpy right 1 > np_std demo_numpy left 1)"
proof -
  from more_variable_compares_unrounded [of demo_numpy 2025 "''/home/lab''"] obtain w where
    r: "run demo_numpy 2025 ''/home/lab'' = Inr w"
    and h: "\<forall>row \<in> set (tl (csv_log w)).
          \<exists>trial_type inst left right.
            data_sets w (trial_type, inst) = Some (left, right)
            \<and> field ''TrialType'' row = trial_type \<and> field ''Instance'' row = str_int inst
            \<and> field ''Left_SD'' row = fmt_3f (np_std demo_numpy left 1)
            \<and> field ''Right_SD'' row = fmt_3f (np_std demo_numpy right 1)
            \<and> (field ''More_Variable'' row = ''Left'' \<longleftrightarrow> np_std demo_numpy left 1 > np_std demo_numpy right 1)
            \<and> (field ''More_Variable'' row = ''Right'' \<longleftrightarrow> np_std demo_numpy right 1 > np_std demo_numpy left 1)
            \<and> (field ''More_Variable'' row = ''Equal'' \<longleftrightarrow> np_std demo_numpy left 1 = np_std demo_numpy right 1)"
    by blast
  from demo_first_row [of "''/home/lab''"] r have
    n: "tl (csv_log w) \<noteq> []"
    and row: "hd (tl (csv_log w))
          = [''1'', ''Different SDs'', ''0'', ''Jitter On'', ''Tukey'', ''Points On'',
             ''0.000'', ''0.000'', ''Right'']"
    by auto
  have mv: "field ''More_Variable'' (hd (tl (csv_log w))) = ''Right''"
    unfolding row by (simp add: field_def csv_header_def)
  from n have "hd (tl (csv_log w)) \<in> set (tl (csv_log w))" by simp
  with h obtain trial_type inst left right where
    "data_sets w (trial_type, inst) = Some (left, right)"
    "field ''TrialType'' (hd (tl (csv_log w))) = trial_type"
    "field ''Instance'' (hd (tl (csv_log w))) = str_int inst"
    "field ''Left_SD'' (hd (tl (csv_log w))) = fmt_3f (np_std demo_numpy left 1)"
    "field ''Right_SD'' (hd (tl (csv_log w))) = fmt_3f (np_std demo_numpy right 1)"
    "field ''More_Variable'' (hd (tl (csv_log w))) = ''Right'' \<longleftrightarrow> np_std demo_numpy right 1 > np_std demo_numpy left 1"
    by blast
  with mv r show ?thesis by blast
qed

text \<open>
  C3, as stated, fails: with \<open>unit_numpy\<close> the trial holds eighty values 6.0 and twenty
  values 6.2, which no single spread parameter produces.
\<close>

theorem unequal_sample_size_equal_spread_counterexample:
  "\<not> (\<exists>sigma. generate_trial_data unit_numpy ''Unequal Sample Size'' 0
                 = equal_spread_unequal_size unit_numpy sigma 0)"
proof
  assume "\<exists>sigma. generate_trial_data unit_numpy ''Unequal Sample Size'' 0
                 = equal_spread_unequal_size unit_numpy sigma 0"
  then obtain sigma where
    "generate_trial_data unit_numpy ''Unequal Sample Size'' 0
       = equal_spread_unequal_size unit_numpy sigma 0" ..
  then have "replicate 80 (6::real) = replicate 80 (5 + sigma)"
    and "replicate 20 (31 / 5 :: real) = replicate 20 (5 + sigma)"
    by (simp_all only: unit_generate_unequal unit_equal_spread sum.inject prod.inject)
  then have "6 = 5 + sigma" "31 / 5 = 5 + sigma"
    by (simp_all add: replicate_eq_replicate)
  then show False by simp
qed

text \<open>
  C3, amended. In every run, each stored "Unequal Sample Size" pair is made of 80 normal
  draws with centre 5 and spread parameter 1.0 and, from the generator state these leave,
  20 normal draws with centre 5 and spread parameter 1.2, stored in this order or swapped:
  the counts differ and so do the two spread parameters.
\<close>

theorem unequal_sample_size_recipe:
  "\<exists>w. run np seed script_dir = Inr w
     \<and> (\<forall>i \<in> set (py_range num_instances_per_trial_type).
          \<exists>g a g1 b g2.
            random_normal np 5 1 80 g = (a, g1) \<and> length a = 80
            \<and> random_normal np 5 (12 / 10) 20 g1 = (b, g2) \<and> length b = 20
            \<and> (data_sets w (''Unequal Sample Size'', i) = Some (a, b)
                \<or> data_sets w (''Unequal Sample Size'', i) = Some (b, a)))"
proof -
  from run_spec [of np seed script_dir] obtain w where
    r: "run np seed script_dir = Inr w"
    and d: "\<forall>trial_type \<in> set trial_types. \<forall>i \<in> set (py_range num_instances_per_trial_type).
            \<exists>p. data_sets w (trial_type, i) = Some p \<and> from_recipe np trial_type p"
    by blast
  have "\<exists>g a g1 b g2.
            random_normal np 5 1 80 g = (a, g1) \<and> length a = 80
            \<and> random_normal np 5 (12 / 10) 20 g1 = (b, g2) \<and> length b = 20
            \<and> (data_sets w (''Unequal Sample Size'', i) = Some (a, b)
                \<or> data_sets w (''Unequal Sample Size'', i) = Some (b, a))"
    if i: "i \<in> set (py_range num_instances_per_trial_type)" for i
  proof -
    have "''Unequal Sample Size'' \<in> set trial_types" by (simp add: trial_types_def)
    with d i obtain p where p: "data_sets w (''Unequal Sample Size'', i) = Some p"
      and f: "from_recipe np ''Unequal Sample Size'' p" by blast
    from f obtain g l r' g' where
      gen: "generate_trial_data np ''Unequal Sample Size'' g = Inr ((l, r'), g')"
      and sw: "p = (l, r') \<or> p = (r', l)"
      unfolding from_recipe_def by blast
    obtain a g1 where a: "random_normal np 5 1 80 g = (a, g1)"
      by (cases "random_normal np 5 1 80 g")
    obtain b g2 where b: "random_normal np 5 (12 / 10) 20 g1 = (b, g2)"
      by (cases "random_normal np 5 (12 / 10) 20 g1")
    from gen a b have e: "l = a" "r' = b" by (simp_all add: generate_trial_data_def)
    from sw p e have "data_sets w (''Unequal Sample Size'', i) = Some (a, b)
                \<or> data_sets w (''Unequal Sample Size'', i) = Some (b, a)" by auto
    with a b random_normal_length [OF a] random_normal_length [OF b] show ?thesis by blast
  qed
  then have "\<forall>i \<in> set (py_range num_instances_per_trial_type).
          \<exists>g a g1 b g2.
            random_normal np 5 1 80 g = (a, g1) \<and> length a = 80
            \<and> random_normal np 5 (12 / 10) 20 g1 = (b, g2) \<and> length b = 20
            \<and> (data_sets w (''Unequal Sample Size'', i) = Some (a, b)
                \<or> data_sets w (''Unequal Sample Size'', i) = Some (b, a))"
    by (rule ballI)
  with r show ?thesis by (intro exI [of _ w] conjI)
qed

theorem unequal_sample_size_recipe_witness:
  "\<exists>w. run unit_numpy 2025 ''/home/lab'' = Inr w
     \<and> (\<exists>g g1 g2.
            random_normal unit_numpy 5 1 80 g = (replicate 80 6, g1)
            \<and> random_normal unit_numpy 5 (12 / 10) 20 g1 = (replicate 20 (31 / 5), g2)
            \<and> (data_sets w (''Unequal Sample Size'', 0) = Some (replicate 80 6, replicate 20 (31 / 5))
                \<or> data_sets w (''Unequal Sample Size'', 0) = Some (replicate 20 (31 / 5), replicate 80 6)))"
proof -
  have m: "(0::int) \<in> set (py_range num_instances_per_trial_type)" by (simp add: py_range_4)
  from unequal_sample_size_recipe [of unit_numpy 2025 "''/home/lab''"] obtain w where
    r: "run unit_numpy 2025 ''/home/lab'' = Inr w"
    and h: "\<forall>i \<in> set (py_range num_instances_per_trial_type).
          \<exists>g a g1 b g2.
            random_normal unit_numpy 5 1 80 g = (a, g1) \<and> length a = 80
            \<and> random_normal unit_numpy 5 (12 / 10) 20 g1 = (b, g2) \<and> length b = 20
            \<and> (data_sets w (''Unequal Sample Size'', i) = Some (a, b)
                \<or> data_sets w (''Unequal Sample Size'', i) = Some (b, a))"
    by blast
  from h m obtain g a g1 b g2 where
    a: "random_normal unit_numpy 5 1 80 g = (a, g1)"
    and b: "random_normal unit_numpy 5 (12 / 10) 20 g1 = (b, g2)"
    and s: "data_sets w (''Unequal Sample Size'', 0) = Some (a, b)
                \<or> data_sets w (''Unequal Sample Size'', 0) = Some (b, a)"
    by blast
  from a have a': "a = replicate 80 6" by (simp add: unit_random_normal)
  from b have b': "b = replicate 20 (31 / 5)" by (simp add: unit_random_normal)
  from a b s r show ?thesis unfolding a' b' by blast
qed


text \<open>
  C5. In every run and for every data set (trial type, instance), exactly 8 data rows of
  the CSV file carry this trial type and instance, and each of them records the same
  Left_SD and Right_SD: the formatted standard deviations of the stored left and right
  sequences of that data set.
\<close>

theorem sd_same_across_conditions:
  "\<exists>w. run np seed script_dir = Inr w
     \<and> (\<forall>trial_type \<in> set trial_types. \<forall>i \<in> set (py_range num_instances_per_trial_type).
          \<exists>left right. data_sets w (trial_type, i) = Some (left, right)
            \<and> length (filter (\<lambda>row. field ''TrialType'' row = trial_type
                                    \<and> field ''Instance'' row = str_int i) (tl (csv_log w))) = 8
            \<and> (\<forall>row \<in> set (tl (csv_log w)).
                  field ''TrialType'' row = trial_type \<and> field ''Instance'' row = str_int i
                  \<longrightarrow> field ''Left_SD'' row = fmt_3f (np_std np left 1)
                      \<and> field ''Right_SD'' row = fmt_3f (np_std np right 1)))"
proof -
  from run_spec [of np seed script_dir] obtain w where
    r: "run np seed script_dir = Inr w"
    and d: "\<forall>trial_type \<in> set trial_types. \<forall>i \<in> set (py_range num_instances_per_trial_type).
            \<exists>p. data_sets w (trial_type, i) = Some p \<and> from_recipe np trial_type p"
    and c: "csv_log w = csv_header # per_trial_type (data_set_rows np) 1 trial_types (data_sets w)"
    by blast
  have main: "\<exists>left right. data_sets w (trial_type, i) = Some (left, right)
            \<and> length (filter (\<lambda>row. field ''TrialType'' row = trial_type
                                    \<and> field ''Instance'' row = str_int i) (tl (csv_log w))) = 8
            \<and> (\<forall>row \<in> set (tl (csv_log w)).
                  field ''TrialType'' row = trial_type \<and> field ''Instance'' row = str_int i
                  \<longrightarrow> field ''Left_SD'' row = fmt_3f (np_std np left 1)
                      \<and> field ''Right_SD'' row = fmt_3f (np_std np right 1))"
    if tt: "trial_type \<in> set trial_types" and i: "i \<in> set (py_range num_instances_per_trial_type)"
    for trial_type i
  proof -
    from d tt i obtain p where p: "data_sets w (trial_type, i) = Some p" by blast
    obtain left right where lr: "p = (left, right)" by (cases p)
    have cnt: "length (filter (\<lambda>row. field ''TrialType'' row = trial_type
                                    \<and> field ''Instance'' row = str_int i) (tl (csv_log w))) = 8"
      using rows_per_data_set [OF tt i, of np "data_sets w"] by (simp add: c)
    have same: "field ''Left_SD'' row = fmt_3f (np_std np left 1)
                      \<and> field ''Right_SD'' row = fmt_3f (np_std np right 1)"
      if m: "row \<in> set (tl (csv_log w))"
        and k: "field ''TrialType'' row = trial_type \<and> field ''Instance'' row = str_int i"
      for row
    proof -
      from m c have "row \<in> set (per_trial_type (data_set_rows np) 1 trial_types (data_sets w))" by simp
      from per_trial_type_mem [OF this] obtain tt' inst j cnd where
        row: "row = csv_row tt' inst (np_std np (fst (the (data_sets w (tt', inst)))) 1)
              (np_std np (snd (the (data_sets w (tt', inst)))) 1)
              (more_variable np (the (data_sets w (tt', inst)))) j cnd"
        by blast
      from k have "tt' = trial_type" "str_int inst = str_int i"
        unfolding row by (simp_all add: field_csv_row)
      then have e: "tt' = trial_type" "inst = i" using str_int_inj by auto
      show ?thesis
        unfolding row e by (simp add: field_csv_row p lr)
    qed
    from p lr cnt same show ?thesis by blast
  qed
  show ?thesis
    by (rule exI [of _ w], rule conjI [OF r], intro ballI, rule main)
qed

theorem sd_same_across_conditions_witness:
  "\<exists>w. run demo_numpy 2025 ''/home/lab'' = Inr w
     \<and> (\<exists>left right. data_sets w (''Skew vs Symmetric'', 1) = Some (left, right)
            \<and> length (filter (\<lambda>row. field ''TrialType'' row = ''Skew vs Symmetric''
                                    \<and> field ''Instance'' row = str_int 1) (tl (csv_log w))) = 8
            \<and> (\<forall>row \<in> set (tl (csv_log w)).
                  field ''TrialType'' row = ''Skew vs Symmetric'' \<and> field ''Instance'' row = str_int 1
                  \<longrightarrow> field ''Left_SD'' row = fmt_3f (np_std demo_numpy left 1)
                      \<and> field ''Right_SD'' row = fmt_3f (np_std demo_numpy right 1)))"
proof -
  have a: "''Skew vs Symmetric'' \<in> set trial_types" by (simp add: trial_types_def)
  have b: "(1::int) \<in> set (py_range num_instances_per_trial_type)" by (simp add: py_range_4)
  from sd_same_across_conditions [of demo_numpy 2025 "''/home/lab''"] obtain w where
    r: "run demo_numpy 2025 ''/home/lab'' = Inr w"
    and h: "\<forall>trial_type \<in> set trial_types. \<forall>i \<in> set (py_range num_instances_per_trial_type).
          \<exists>left right. data_sets w (trial_type, i) = Some (left, right)
            \<and> length (filter (\<lambda>row. field ''TrialType'' row = trial_type
                                    \<and> field ''Instance'' row = str_int i) (tl (csv_log w))) = 8
            \<and> (\<forall>row \<in> set (tl (csv_log w)).
                  field ''TrialType'' row = trial_type \<and> field ''Instance'' row = str_int i
                  \<longrightarrow> field ''Left_SD'' row = fmt_3f (np_std demo_numpy left 1)
                      \<and> field ''Right_SD'' row = fmt_3f (np_std demo_numpy right 1))"
    by blast
  from h [rule_format, OF a b] r show ?thesis by blast
qed

text \<open>
  C6. In every run and for each of the four instances of "Unequal Sample Size", the
  stored pair holds one sequence of exactly 80 values and one of exactly 20, whichever
  side the swap put them on.
\<close>

theorem unequal_sample_size_counts:
  "\<exists>w. run np seed script_dir = Inr w
     \<and> (\<forall>i \<in> set (py_range num_instances_per_trial_type).
          \<exists>left right. data_sets w (''Unequal Sample Size'', i) = Some (left, right)
            \<and> ((length left = 80 \<and> length right = 20) \<or> (length left = 20 \<and> length right = 80)))"
proof -
  from run_spec [of np seed script_dir] obtain w where
    r: "run np seed script_dir = Inr w"
    and d: "\<forall>trial_type \<in> set trial_types. \<forall>i \<in> set (py_range num_instances_per_trial_type).
            \<exists>p. data_sets w (trial_type, i) = Some p \<and> from_recipe np trial_type p"
    by blast
  have "\<exists>left right. data_sets w (''Unequal Sample Size'', i) = Some (left, right)
            \<and> ((length left = 80 \<and> length right = 20) \<or> (length left = 20 \<and> length right = 80))"
    if i: "i \<in> set (py_range num_instances_per_trial_type)" for i
  proof -
    have "''Unequal Sample Size'' \<in> set trial_types" by (simp add: trial_types_def)
    with d i obtain p where p: "data_sets w (''Unequal Sample Size'', i) = Some p"
      and f: "from_recipe np ''Unequal Sample Size'' p" by blast
    obtain left right where lr: "p = (left, right)" by (cases p)
    from from_recipe_unequal [OF f [unfolded lr]] p lr show ?thesis by blast
  qed
  with r show ?thesis by blast
qed

theorem unequal_sample_size_counts_witness:
  "\<exists>w. run demo_numpy 2025 ''/home/lab'' = Inr w
     \<and> (\<exists>left right. data_sets w (''Unequal Sample Size'', 2) = Some (left, right)
            \<and> ((length left = 80 \<and> length right = 20) \<or> (length left = 20 \<and> length right = 80)))"
proof -
  have "(2::int) \<in> set (py_range num_instances_per_trial_type)" by (simp add: py_range_4)
  with unequal_sample_size_counts [of demo_numpy 2025 "''/home/lab''"] show ?thesis by blast
qed

text \<open>
  C7. In every run and for each of the four instances of "Outlier vs No-Outlier", one
  stored sequence is 50 normal draws (centre 5, spread 1.0) followed by the five outliers
  13, 15, -3, -5, 17 (55 values), and the other holds exactly 50 values, whichever side
  the swap put them on.
\<close>

theorem outlier_counts:
  "\<exists>w. run np seed script_dir = Inr w
     \<and> (\<forall>i \<in> set (py_range num_instances_per_trial_type).
          \<exists>left right g base g1. data_sets w (''Outlier vs No-Outlier'', i) = Some (left, right)
            \<and> random_normal np 5 1 50 g = (base, g1) \<and> length base = 50
            \<and> ((left = base @ [13, 15, - 3, - 5, 17] \<and> length left = 55 \<and> length right = 50)
               \<or> (right = base @ [13, 15, - 3, - 5, 17] \<and> length right = 55 \<and> length left = 50)))"
proof -
  from run_spec [of np seed script_dir] obtain w where
    r: "run np seed script_dir = Inr w"
    and d: "\<forall>trial_type \<in> set trial_types. \<forall>i \<in> set (py_range num_instances_per_trial_type).
            \<exists>p. data_sets w (trial_type, i) = Some p \<and> from_recipe np trial_type p"
    by blast
  have "\<exists>left right g base g1. data_sets w (''Outlier vs No-Outlier'', i) = Some (left, right)
            \<and> random_normal np 5 1 50 g = (base, g1) \<and> length base = 50
            \<and> ((left = base @ [13, 15, - 3, - 5, 17] \<and> length left = 55 \<and> length right = 50)
               \<or> (right = base @ [13, 15, - 3, - 5, 17] \<and> length right = 55 \<and> length left = 50))"
    if i: "i \<in> set (py_range num_instances_per_trial_type)" for i
  proof -
    have "''Outlier vs No-Outlier'' \<in> set trial_types" by (simp add: trial_types_def)
    with d i obtain p where p: "data_sets w (''Outlier vs No-Outlier'', i) = Some p"
      and f: "from_recipe np ''Outlier vs No-Outlier'' p" by blast
    obtain left right where lr: "p = (left, right)" by (cases p)
    from from_recipe_outlier [OF f [unfolded lr]] obtain g base g1 where
      n: "random_normal np 5 1 50 g = (base, g1)"
      and b: "length base = 50"
      and c: "(left = base @ [13, 15, - 3, - 5, 17] \<and> length right = 50)
        \<or> (right = base @ [13, 15, - 3, - 5, 17] \<and> length left = 50)" by blast
    from c b have "(left = base @ [13, 15, - 3, - 5, 17] \<and> length left = 55 \<and> length right = 50)
               \<or> (right = base @ [13, 15, - 3, - 5, 17] \<and> length right = 55 \<and> length left = 50)"
      by auto
    with p lr b n show ?thesis by blast
  qed
  then have "\<forall>i \<in> set (py_range num_instances_per_trial_type).
          \<exists>left right g base g1. data_sets w (''Outlier vs No-Outlier'', i) = Some (left, right)
            \<and> random_normal np 5 1 50 g = (base, g1) \<and> length base = 50
            \<and> ((left = base @ [13, 15, - 3, - 5, 17] \<and> length left = 55 \<and> length right = 50)
               \<or> (right = base @ [13, 15, - 3, - 5, 17] \<and> length right = 55 \<and> length left = 50))"
    by (rule ballI)
  with r show ?thesis by (intro exI [of _ w] conjI)
qed

theorem outlier_counts_witness:
  "\<exists>w. run demo_numpy 2025 ''/home/lab'' = Inr w
     \<and> (\<exists>left right g base g1. data_sets w (''Outlier vs No-Outlier'', 3) = Some (left, right)
            \<and> random_normal demo_numpy 5 1 50 g = (base, g1) \<and> length base = 50
            \<and> ((left = base @ [13, 15, - 3, - 5, 17] \<and> length left = 55 \<and> length right = 50)
               \<or> (right = base @ [13, 15, - 3, - 5, 17] \<and> length right = 55 \<and> length left = 50)))"
proof -
  have "(3::int) \<in> set (py_range num_instances_per_trial_type)" by (simp add: py_range_4)
  with outlier_counts [of demo_numpy 2025 "''/home/lab''"] show ?thesis by blast
qed



text \<open>
  C9. In every run the 128 images are saved, in trial order, under the output directory
  with the file name the grammar gives for the trial's index, trial type and condition,
  where the index of the k-th image is k; and no two of the saved paths are equal.
\<close>

theorem image_filenames:
  "\<exists>w. run np seed script_dir = Inr w
     \<and> map fst (saved w)
         = map (\<lambda>(i, trial_type, jitter, whisker, points).
                  path_join (path_join script_dir ''boxplot_stimuli'')
                    (grammar_filename i trial_type jitter whisker points))
             (zip [1..128]
                (concat (map (\<lambda>trial_type.
                   concat (map (\<lambda>inst. map (\<lambda>c. (trial_type, c)) conditions)
                     (py_range num_instances_per_trial_type))) trial_types)))
     \<and> distinct (map fst (saved w))
     \<and> trial_filename i trial_type jitter whisker points
         = grammar_filename i trial_type jitter whisker points"
proof -
  let ?od = "path_join script_dir ''boxplot_stimuli''"
  from run_spec [of np seed script_dir] obtain w where
    r: "run np seed script_dir = Inr w"
    and s: "map fst (saved w) = per_trial_type (data_set_paths ?od) 1 trial_types (data_sets w)"
    by blast
  have "distinct [1..128::int]" by (rule distinct_upto)
  then have "distinct (map str_int [1..128])"
    by (simp add: distinct_map inj_on_def str_int_eq_iff)
  with index_of_paths [of ?od "data_sets w"]
  have "distinct (per_trial_type (data_set_paths ?od) 1 trial_types (data_sets w))"
    by (rule distinct_through)
  with r s saved_paths_grammar [of ?od "data_sets w"] trial_filename_grammar show ?thesis
    by (intro exI [of _ w] conjI) simp_all
qed

text \<open>
  C10. Whenever opening or reading the file fails, with whatever error,
  \<open>extract_element_ids\<close> returns the empty list and raises nothing.
\<close>

theorem extract_element_ids_read_failure:
  "read_text fs html_file = Inl e \<Longrightarrow> extract_element_ids lib fs html_file = Inr []"
  using read_text_error_is_Exception [of fs html_file e]
  by (simp add: extract_element_ids_def)

theorem extract_element_ids_read_failure_witness:
  "read_text Map.empty ''htmls/page.html'' = Inl FileNotFoundError
     \<and> extract_element_ids null_html_lib Map.empty ''htmls/page.html'' = Inr []"
proof -
  have h: "read_text Map.empty ''htmls/page.html'' = Inl FileNotFoundError"
    by (simp add: read_text_def)
  from extract_element_ids_read_failure [OF h, of null_html_lib] h show ?thesis by simp
qed

end
